theory Spec2Isabelle
  imports Complex_Main "HOL-Library.AList" "HOL-Library.Multiset"
begin

section \<open>JSON values and the JavaScript primitives the pipeline relies on\<close>

text \<open>
  Everything the pipeline handles comes out of \<^verbatim>\<open>JSON.parse\<close>, so a value is a JSON tree.
  An object is an association list in insertion order (\<^verbatim>\<open>Object.keys\<close> order, apart from
  integer-like keys, which JavaScript lists first); a property
  that is absent reads as \<^verbatim>\<open>undefined\<close>, which is \<open>None\<close> here. Numbers are the rational
  value of the double; only "is it zero" is ever asked of them. The prototype chain
  (\<^verbatim>\<open>toString\<close>, \<^verbatim>\<open>constructor\<close>, \<^verbatim>\<open>length\<close>) is not modelled: the property names the code
  reads are data keys such as \<^verbatim>\<open>_type\<close>, \<^verbatim>\<open>_ref\<close>, \<^verbatim>\<open>asset\<close>.
\<close>

datatype json =
    JNull
  | JBool bool
  | JNum rat
  | JStr string
  | JArr "json list"
  | JObj "(string \<times> json) list"

text \<open>The only exception the pipeline code itself can raise: reading a property of \<^verbatim>\<open>null\<close>,
  or calling a method that the receiver does not have.\<close>

datatype error = TypeError

fun typeof :: "json \<Rightarrow> string" where
  "typeof JNull = ''object''"
| "typeof (JBool _) = ''boolean''"
| "typeof (JNum _) = ''number''"
| "typeof (JStr _) = ''string''"
| "typeof (JArr _) = ''object''"
| "typeof (JObj _) = ''object''"

fun isArray :: "json \<Rightarrow> bool" where
  "isArray (JArr _) = True"
| "isArray _ = False"

text \<open>\<^verbatim>\<open>!!v\<close> for a JSON value, and for a property read that may be \<^verbatim>\<open>undefined\<close>.\<close>

fun truthy :: "json \<Rightarrow> bool" where
  "truthy JNull = False"
| "truthy (JBool b) = b"
| "truthy (JNum n) = (n \<noteq> 0)"
| "truthy (JStr s) = (s \<noteq> [])"
| "truthy (JArr _) = True"
| "truthy (JObj _) = True"

fun truthy_prop :: "json option \<Rightarrow> bool" where
  "truthy_prop None = False"
| "truthy_prop (Some v) = truthy v"

text \<open>\<^verbatim>\<open>v.k\<close> where the source has already excluded \<^verbatim>\<open>null\<close> (or uses \<^verbatim>\<open>?.\<close>).\<close>

fun prop_of :: "json \<Rightarrow> string \<Rightarrow> json option" where
  "prop_of (JObj kvs) k = map_of kvs k"
| "prop_of _ k = None"

text \<open>The test \<^verbatim>\<open>v !== undefined && v !== null\<close>: the value when it passes.\<close>

definition non_null :: "json option \<Rightarrow> json option" where
  "non_null v = (case v of None \<Rightarrow> None | Some j \<Rightarrow> if j = JNull then None else Some j)"

text \<open>\<^verbatim>\<open>v.k\<close> unguarded: \<^verbatim>\<open>null.k\<close> throws.\<close>

definition get :: "json \<Rightarrow> string \<Rightarrow> error + json option" where
  "get v k = (if v = JNull then Inl TypeError else Inr (prop_of v k))"

text \<open>\<^verbatim>\<open>k in obj\<close> on an object.\<close>

fun has_key :: "json \<Rightarrow> string \<Rightarrow> bool" where
  "has_key (JObj kvs) k = (k \<in> fst ` set kvs)"
| "has_key _ k = False"

text \<open>\<^verbatim>\<open>obj[k] = v\<close> and \<^verbatim>\<open>delete obj[k]\<close> as functions on the object.\<close>

fun set_prop :: "string \<Rightarrow> json \<Rightarrow> json \<Rightarrow> json" where
  "set_prop k v (JObj kvs) = JObj (AList.update k v kvs)"
| "set_prop k v j = j"

fun delete_prop :: "string \<Rightarrow> json \<Rightarrow> json" where
  "delete_prop k (JObj kvs) = JObj (AList.delete k kvs)"
| "delete_prop k j = j"

text \<open>Strings: \<^verbatim>\<open>Array.prototype.join\<close>, \<^verbatim>\<open>String.prototype.trim\<close> (on the ASCII white
  space a \<open>char\<close> can hold) and \<^verbatim>\<open>String.prototype.includes\<close>.\<close>

fun join :: "string \<Rightarrow> string list \<Rightarrow> string" where
  "join sep [] = []"
| "join sep [x] = x"
| "join sep (x # y # ys) = x @ sep @ join sep (y # ys)"

definition js_space :: "char \<Rightarrow> bool" where
  "js_space c = (c \<in> set [CHR 0x09, CHR 0x0A, CHR 0x0B, CHR 0x0C, CHR 0x0D, CHR 0x20])"

definition trim :: "string \<Rightarrow> string" where
  "trim s = rev (dropWhile js_space (rev (dropWhile js_space s)))"

fun starts_with :: "string \<Rightarrow> string \<Rightarrow> bool" where
  "starts_with s [] = True"
| "starts_with [] (c # cs) = False"
| "starts_with (x # xs) (c # cs) = (x = c \<and> starts_with xs cs)"

fun str_includes :: "string \<Rightarrow> string \<Rightarrow> bool" where
  "str_includes [] sub = (sub = [])"
| "str_includes (x # xs) sub = (starts_with (x # xs) sub \<or> str_includes xs sub)"

text \<open>A \<^verbatim>\<open>forEach\<close> whose body pushes warnings and may throw: the warnings of all elements in
  order, or the first exception.\<close>

fun collect :: "('a \<Rightarrow> error + 'w list) \<Rightarrow> 'a list \<Rightarrow> error + 'w list" where
  "collect f [] = Inr []"
| "collect f (x # xs) =
     (case f x of
        Inl e \<Rightarrow> Inl e
      | Inr ws \<Rightarrow> (case collect f xs of Inl e \<Rightarrow> Inl e | Inr ws' \<Rightarrow> Inr (ws @ ws')))"

section \<open>providerIds.ts\<close>

definition PROVIDER_ID_MAP :: "(string \<times> string) list" where
  "PROVIDER_ID_MAP =
     [(''Vindst'' @ [CHR 0xC3, CHR 0xB8] @ ''d'', ''63c05ca2-cd1e-4f00-b544-6a2077d4031a''),
      (''Andel Energi'', ''9451a43b-6e68-4914-945c-73a81a508214''),
      (''Norlys'', ''9526e0ba-cbe8-4526-9abc-7dabb4756b2b''),
      (''NRGi'', ''a6541984-3dbb-466a-975b-badba029e139'')]"

definition PROVIDER_WHITELIST :: "string list" where
  "PROVIDER_WHITELIST = map snd PROVIDER_ID_MAP"

text \<open>\<^verbatim>\<open>PROVIDER_WHITELIST.includes(id)\<close> compares with \<^verbatim>\<open>===\<close>, so only a string can be a member;
  the callers pass whatever \<^verbatim>\<open>p._ref\<close> holds.\<close>

fun isValidProviderId :: "json option \<Rightarrow> bool" where
  "isValidProviderId (Some (JStr s)) = (s \<in> set PROVIDER_WHITELIST)"
| "isValidProviderId _ = False"

section \<open>The schema manifest and the generation request\<close>

text \<open>One entry of \<^verbatim>\<open>schema.contentBlockTypes\<close>; \<open>btype\<close> is its \<^verbatim>\<open>type\<close> property. The three
  tables are optional in the manifest.\<close>

record block_spec =
  btype :: string
  requiredFields :: "string list option"
  fieldTypes :: "(string \<times> string) list option"
  fieldEnums :: "(string \<times> string list) list option"

record schema_manifest =
  contentBlockTypes :: "block_spec list option"

record GenerationRequest =
  topic :: string
  "keywords" :: "string list"
  toneOfVoice :: string
  schema :: "schema_manifest option"
  optionalBlocks :: "string list"

text \<open>\<^verbatim>\<open>schema?.contentBlockTypes\<close>: \<open>None\<close> when the schema or the array is missing.\<close>

definition block_types_of :: "schema_manifest option \<Rightarrow> block_spec list option" where
  "block_types_of s = (case s of None \<Rightarrow> None | Some m \<Rightarrow> contentBlockTypes m)"

text \<open>\<^verbatim>\<open>manifestBlockMap\<close>: the \<^verbatim>\<open>reduce\<close> assigns \<^verbatim>\<open>map[block.type] = block\<close> from left to
  right, so the last entry of a type wins.\<close>

definition manifestBlockMap :: "block_spec list \<Rightarrow> string \<Rightarrow> block_spec option" where
  "manifestBlockMap cbts = map_of (rev (map (\<lambda>b. (btype b, b)) cbts))"

section \<open>validateFieldType and validateContentBlocks\<close>

text \<open>
  The validator pushes message strings. Each constructor below stands for one message
  template of the source; the block index is kept apart from the message
  (\<open>BlockWarning index issue\<close>), the interpolated values are the constructor's arguments.
\<close>

datatype field_issue =
    NotArrayOfStrings string          \<comment> \<open>should be an array of strings, got typeof\<close>
  | ItemNotString nat string          \<comment> \<open>[i] should be a string, got typeof\<close>
  | ItemIsBlock nat                   \<comment> \<open>[i] contains Portable Text block\<close>
  | NotArrayOfReferences string       \<comment> \<open>should be an array of references, got typeof\<close>
  | RefIsString nat                   \<comment> \<open>[i] should be a reference object, not a string\<close>
  | RefMalformed nat                  \<comment> \<open>[i] should be a reference object with _type and _ref\<close>
  | FirstProviderNotPreferred "json option"
  | ProviderNotWhitelisted "json option"
  | NotArrayOfPortableText string
  | ItemNotPortableText nat
  | NotIconManager
  | NotImage
  | NotNumber string
  | NotString string

datatype block_issue =
    MissingType                                    \<comment> \<open>Block i: Missing _type field\<close>
  | MissingKey "json option"                       \<comment> \<open>Block i (type): Missing _key field\<close>
  | InvalidType "json option" "string list"        \<comment> \<open>Block i: Invalid _type. Valid types: ...\<close>
  | MissingRequired string                         \<comment> \<open>Missing required field\<close>
  | FieldIssue string field_issue                  \<comment> \<open>pushed by validateFieldType for a field\<close>
  | EnumViolation string "string list" json        \<comment> \<open>Field must be one of ...\<close>

datatype warning =
    SchemaUnavailable                              \<comment> \<open>Schema manifest not available for validation\<close>
  | BlockWarning nat block_issue

definition check_string_item :: "nat \<Rightarrow> json \<Rightarrow> error + field_issue list" where
  "check_string_item i item =
     (let w1 = (if typeof item \<noteq> ''string'' then [ItemNotString i (typeof item)] else [])
      in if typeof item = ''object'' then
           (case get item ''_type'' of
              Inl e \<Rightarrow> Inl e
            | Inr t \<Rightarrow> Inr (w1 @ (if t = Some (JStr ''block'') then [ItemIsBlock i] else [])))
         else Inr w1)"

definition check_reference_item ::
  "string \<Rightarrow> string \<Rightarrow> nat \<Rightarrow> json \<Rightarrow> error + field_issue list" where
  "check_reference_item blockType fieldName i item =
     (if typeof item = ''string'' then Inr [RefIsString i]
      else if typeof item \<noteq> ''object'' then Inr [RefMalformed i]
      else
        (case get item ''_type'' of
           Inl e \<Rightarrow> Inl e
         | Inr t \<Rightarrow>
             if t \<noteq> Some (JStr ''reference'') \<or> \<not> truthy_prop (prop_of item ''_ref'')
             then Inr [RefMalformed i]
             else if blockType = ''providerList'' \<and> fieldName = ''providers'' then
               Inr ((if i = 0 \<and> prop_of item ''_ref'' \<noteq> Some (JStr (PROVIDER_WHITELIST ! 0))
                     then [FirstProviderNotPreferred (prop_of item ''_ref'')] else [])
                    @ (if \<not> isValidProviderId (prop_of item ''_ref'')
                       then [ProviderNotWhitelisted (prop_of item ''_ref'')] else []))
             else Inr []))"

definition check_portable_text_item :: "nat \<Rightarrow> json \<Rightarrow> error + field_issue list" where
  "check_portable_text_item i item =
     (if typeof item \<noteq> ''object'' then Inr [ItemNotPortableText i]
      else
        (case get item ''_type'' of
           Inl e \<Rightarrow> Inl e
         | Inr t \<Rightarrow> Inr (if t \<noteq> Some (JStr ''block'') then [ItemNotPortableText i] else [])))"

text \<open>\<^verbatim>\<open>validateFieldType\<close>; it is only called with a value that is neither \<^verbatim>\<open>undefined\<close>
  nor \<^verbatim>\<open>null\<close>. The issues it pushes for one field, in order.\<close>

definition validateFieldType ::
  "string \<Rightarrow> json \<Rightarrow> string \<Rightarrow> string \<Rightarrow> error + field_issue list" where
  "validateFieldType fieldName fieldValue fieldType blockType =
     (if fieldType = ''array of strings'' then
        (case fieldValue of
           JArr items \<Rightarrow> collect (\<lambda>(i, item). check_string_item i item) (enumerate 0 items)
         | _ \<Rightarrow> Inr [NotArrayOfStrings (typeof fieldValue)])
      else if fieldType = ''array of references'' then
        (case fieldValue of
           JArr items \<Rightarrow>
             collect (\<lambda>(i, item). check_reference_item blockType fieldName i item)
               (enumerate 0 items)
         | _ \<Rightarrow> Inr [NotArrayOfReferences (typeof fieldValue)])
      else if fieldType = ''array of Portable Text blocks'' then
        (case fieldValue of
           JArr items \<Rightarrow>
             collect (\<lambda>(i, item). check_portable_text_item i item) (enumerate 0 items)
         | _ \<Rightarrow> Inr [NotArrayOfPortableText (typeof fieldValue)])
      else if fieldType = ''icon.manager'' then
        Inr (if typeof fieldValue \<noteq> ''object''
                \<or> prop_of fieldValue ''_type'' \<noteq> Some (JStr ''icon.manager'')
                \<or> \<not> truthy_prop (prop_of fieldValue ''icon'')
             then [NotIconManager] else [])
      else if fieldType = ''image'' \<or> fieldType = ''image?''
              \<or> fieldType = ''Sanity image object with valid asset reference'' then
        Inr (if typeof fieldValue \<noteq> ''object''
                \<or> (case prop_of fieldValue ''asset'' of
                      None \<Rightarrow> True
                    | Some asset \<Rightarrow> \<not> truthy asset \<or> \<not> truthy_prop (prop_of asset ''_ref''))
             then [NotImage] else [])
      else if fieldType = ''number'' then
        Inr (if typeof fieldValue \<noteq> ''number'' then [NotNumber (typeof fieldValue)] else [])
      else if fieldType = ''string'' then
        Inr (if typeof fieldValue \<noteq> ''string'' then [NotString (typeof fieldValue)] else [])
      else Inr [])"

text \<open>The body of the \<^verbatim>\<open>contentBlocks.forEach\<close> of \<^verbatim>\<open>validateContentBlocks\<close> for one block:
  the issues it pushes, in order, or the exception it raises.\<close>

definition required_issues :: "block_spec option \<Rightarrow> json \<Rightarrow> block_issue list" where
  "required_issues manifestBlock block =
     (case Option.bind manifestBlock requiredFields of
        None \<Rightarrow> []
      | Some rfs \<Rightarrow>
          concat (map (\<lambda>requiredField.
            if \<not> has_key block requiredField
               \<or> prop_of block requiredField = Some JNull
               \<or> prop_of block requiredField = None
               \<or> prop_of block requiredField = Some (JStr [])
            then [MissingRequired requiredField] else []) rfs))"

definition field_type_issues ::
  "block_spec option \<Rightarrow> string \<Rightarrow> json \<Rightarrow> error + block_issue list" where
  "field_type_issues manifestBlock blockType block =
     (case Option.bind manifestBlock fieldTypes of
        None \<Rightarrow> Inr []
      | Some fts \<Rightarrow>
          collect (\<lambda>(fieldName, fieldType).
            (case non_null (prop_of block fieldName) of
               None \<Rightarrow> Inr []
             | Some fieldValue \<Rightarrow>
                 (case validateFieldType fieldName fieldValue fieldType blockType of
                    Inl e \<Rightarrow> Inl e
                  | Inr ws \<Rightarrow> Inr (map (FieldIssue fieldName) ws)))) fts)"

definition enum_issues :: "block_spec option \<Rightarrow> json \<Rightarrow> block_issue list" where
  "enum_issues manifestBlock block =
     (case Option.bind manifestBlock fieldEnums of
        None \<Rightarrow> []
      | Some fes \<Rightarrow>
          concat (map (\<lambda>(fieldName, validValues).
            (case non_null (prop_of block fieldName) of
               None \<Rightarrow> []
             | Some fieldValue \<Rightarrow>
                 if \<not> (\<exists>s \<in> set validValues. fieldValue = JStr s)
                 then [EnumViolation fieldName validValues fieldValue] else [])) fes))"

definition type_in_manifest :: "block_spec list \<Rightarrow> json option \<Rightarrow> bool" where
  "type_in_manifest cbts ty = (\<exists>t \<in> set (map btype cbts). ty = Some (JStr t))"

definition key_issues :: "json \<Rightarrow> block_issue list" where
  "key_issues block =
     (if \<not> truthy_prop (prop_of block ''_key'') then [MissingKey (prop_of block ''_type'')] else [])"

definition validate_block :: "block_spec list \<Rightarrow> json \<Rightarrow> error + block_issue list" where
  "validate_block cbts block =
     (case get block ''_type'' of
        Inl e \<Rightarrow> Inl e
      | Inr ty \<Rightarrow>
          if \<not> truthy_prop ty then Inr [MissingType]
          else if \<not> type_in_manifest cbts ty then
            Inr (key_issues block @ [InvalidType ty (map btype cbts)])
          else
            (let blockType = (case ty of Some (JStr t) \<Rightarrow> t | _ \<Rightarrow> []);
                 manifestBlock = manifestBlockMap cbts blockType
             in case field_type_issues manifestBlock blockType block of
                  Inl e \<Rightarrow> Inl e
                | Inr tws \<Rightarrow>
                    Inr (key_issues block @ required_issues manifestBlock block
                         @ tws @ enum_issues manifestBlock block)))"

text \<open>\<^verbatim>\<open>validateContentBlocks\<close> returns \<^verbatim>\<open>{ isValid, warnings }\<close>: the pair below.\<close>

definition validateContentBlocks ::
  "json list \<Rightarrow> schema_manifest option \<Rightarrow> error + (bool \<times> warning list)" where
  "validateContentBlocks contentBlocks sch =
     (case block_types_of sch of
        None \<Rightarrow> Inr (False, [SchemaUnavailable])
      | Some cbts \<Rightarrow>
          (case collect (\<lambda>(index, block).
                   (case validate_block cbts block of
                      Inl e \<Rightarrow> Inl e
                    | Inr ws \<Rightarrow> Inr (map (BlockWarning index) ws)))
                 (enumerate 0 contentBlocks) of
             Inl e \<Rightarrow> Inl e
           | Inr warnings \<Rightarrow> Inr (warnings = [], warnings)))"

section \<open>validateGenerationRequest\<close>

text \<open>Returns \<^verbatim>\<open>{ isValid, errors }\<close>, with the error strings of the source.\<close>

definition validateGenerationRequest :: "GenerationRequest \<Rightarrow> bool \<times> string list" where
  "validateGenerationRequest request =
     (case block_types_of (schema request) of
        None \<Rightarrow>
          (False,
           [''Schema manifest not loaded - ensure elportal-schema-manifest.json is available''])
      | Some cbts \<Rightarrow>
          (let manifestBlockTypes = map btype cbts;
               invalidBlocks =
                 filter (\<lambda>blockType. blockType \<notin> set manifestBlockTypes) (optionalBlocks request);
               errors =
                 (if length invalidBlocks > 0
                  then [''Invalid block types requested: '' @ join '', '' invalidBlocks
                        @ ''. Available types: '' @ join '', '' manifestBlockTypes]
                  else [])
                 @ (if topic request = [] \<or> length (trim (topic request)) = 0
                    then [''Topic is required''] else [])
                 @ (if length (keywords request) = 0
                       \<or> list_all (\<lambda>k. length (trim k) = 0) (keywords request)
                    then [''At least one keyword is required''] else [])
           in (length errors = 0, errors)))"

section \<open>The JavaScript environment of the repair stage\<close>

text \<open>
  What the repair code takes from the JavaScript runtime is a parameter of the model:
  the decimal rendering of a number (\<^verbatim>\<open>String(n)\<close>), \<^verbatim>\<open>Number(s)\<close> (\<open>None\<close> for \<^verbatim>\<open>NaN\<close>),
  \<^verbatim>\<open>JSON.parse\<close> (\<open>None\<close> when it throws), \<^verbatim>\<open>JSON.stringify\<close>, and the values that
  \<^verbatim>\<open>Date.now()\<close> and \<^verbatim>\<open>Math.random().toString(36).slice(2, n)\<close> contribute to generated keys.
  Two regular-expression steps of the extractor are parameters as well: \<open>codeBlockMatch\<close>
  is capture group 1 of the fenced-block pattern of attempt 2 (\<open>None\<close> when it does not
  match), \<open>contentCleaning\<close> is the chain of \<^verbatim>\<open>replace\<close> calls and \<^verbatim>\<open>trim\<close> of attempt 4.
  The pattern of attempt 3 is modelled in full below.
\<close>

record js_env =
  number_to_string :: "rat \<Rightarrow> string"
  string_to_number :: "string \<Rightarrow> rat option"
  JSON_parse :: "string \<Rightarrow> json option"
  JSON_stringify :: "json \<Rightarrow> string"
  codeBlockMatch :: "string \<Rightarrow> string option"
  contentCleaning :: "string \<Rightarrow> string"
  now :: string
  random2 :: string
  random4 :: string

text \<open>\<^verbatim>\<open>String(v)\<close>; an array joins its elements with commas, \<^verbatim>\<open>null\<close> elements as the
  empty string.\<close>

fun jsString :: "js_env \<Rightarrow> json \<Rightarrow> string" where
  "jsString env JNull = ''null''"
| "jsString env (JBool b) = (if b then ''true'' else ''false'')"
| "jsString env (JNum n) = number_to_string env n"
| "jsString env (JStr s) = s"
| "jsString env (JArr xs) =
     join '','' (map (\<lambda>x. if x = JNull then [] else jsString env x) xs)"
| "jsString env (JObj kvs) = ''[object Object]''"

text \<open>How \<^verbatim>\<open>join\<close> renders an element that may be \<^verbatim>\<open>undefined\<close> or \<^verbatim>\<open>null\<close>.\<close>

definition join_item :: "js_env \<Rightarrow> json option \<Rightarrow> string" where
  "join_item env v = (case non_null v of None \<Rightarrow> [] | Some j \<Rightarrow> jsString env j)"

text \<open>\<^verbatim>\<open>s.replace(/\s+/g, ' ')\<close>: every maximal run of white space becomes one space.\<close>

function collapse_ws :: "string \<Rightarrow> string" where
  "collapse_ws [] = []"
| "collapse_ws (c # cs) =
     (if js_space c then CHR 0x20 # collapse_ws (dropWhile js_space cs)
      else c # collapse_ws cs)"
  by pat_completeness auto
termination
  by (relation "measure length") (auto simp: length_dropWhile_le less_Suc_eq_le)

fun map_err :: "('a \<Rightarrow> error + 'b) \<Rightarrow> 'a list \<Rightarrow> error + 'b list" where
  "map_err f [] = Inr []"
| "map_err f (x # xs) =
     (case f x of
        Inl e \<Rightarrow> Inl e
      | Inr y \<Rightarrow> (case map_err f xs of Inl e \<Rightarrow> Inl e | Inr ys \<Rightarrow> Inr (y # ys)))"

text \<open>A Portable Text paragraph with one span, as the source builds it in three places.\<close>

definition portable_text_block :: "string \<Rightarrow> string \<Rightarrow> string \<Rightarrow> json" where
  "portable_text_block block_key span_key txt =
     JObj [(''_type'', JStr ''block''), (''_key'', JStr block_key), (''style'', JStr ''normal''),
           (''children'', JArr [JObj [(''_type'', JStr ''span''), (''_key'', JStr span_key),
                                      (''text'', JStr txt), (''marks'', JArr [])]]),
           (''markDefs'', JArr [])]"

section \<open>Field coercion: toPlainString and enforceFieldType\<close>

text \<open>\<^verbatim>\<open>(v.children || []).map(c => c.text).join('')\<close> for a Portable Text block \<open>v\<close>:
  \<^verbatim>\<open>map\<close> exists on arrays only, and \<^verbatim>\<open>c.text\<close> throws on a \<^verbatim>\<open>null\<close> child.\<close>

definition block_text :: "js_env \<Rightarrow> json \<Rightarrow> error + string" where
  "block_text env v =
     (if \<not> truthy_prop (prop_of v ''children'') then Inr []
      else
        (case prop_of v ''children'' of
           Some (JArr cs) \<Rightarrow>
             (case map_err (\<lambda>c. get c ''text'') cs of
                Inl e \<Rightarrow> Inl e
              | Inr ts \<Rightarrow> Inr (concat (map (join_item env) ts)))
         | _ \<Rightarrow> Inl TypeError))"

text \<open>\<^verbatim>\<open>_toPlainString\<close>.\<close>

definition toPlainString :: "js_env \<Rightarrow> json \<Rightarrow> error + string" where
  "toPlainString env v =
     (case v of
        JArr vs \<Rightarrow>
          (case map_err (\<lambda>v. if typeof v = ''object'' \<and> prop_of v ''_type'' = Some (JStr ''block'')
                              then block_text env v else Inr (jsString env v)) vs of
             Inl e \<Rightarrow> Inl e
           | Inr parts \<Rightarrow> Inr (trim (collapse_ws (join '' '' parts))))
      | _ \<Rightarrow> Inr (if typeof v = ''object'' then JSON_stringify env v else jsString env v))"

text \<open>The result object of \<^verbatim>\<open>enforceFieldType\<close>; \<open>new_value\<close> is its optional \<^verbatim>\<open>value\<close>.\<close>

record fix_result =
  fixed :: bool
  dropped :: bool
  new_value :: "json option"
  wasType :: string

definition enforceFieldType :: "js_env \<Rightarrow> string \<Rightarrow> json \<Rightarrow> string \<Rightarrow> error + fix_result" where
  "enforceFieldType env fieldName v expectedType =
     (let was = (if isArray v then ''array'' else typeof v);
          unchanged = \<lparr>fixed = False, dropped = False, new_value = None, wasType = was\<rparr>;
          drop = \<lparr>fixed = False, dropped = True, new_value = None, wasType = was\<rparr>;
          fix = (\<lambda>nv. \<lparr>fixed = True, dropped = False, new_value = Some nv, wasType = was\<rparr>)
      in
      if expectedType = ''string'' then
        (if isArray v then
           (case toPlainString env v of
              Inl e \<Rightarrow> Inl e
            | Inr flattened \<Rightarrow>
                if flattened \<noteq> [] \<and> trim flattened \<noteq> [] then Inr (fix (JStr flattened))
                else Inr drop)
         else if typeof v = ''string'' then Inr unchanged
         else if v \<noteq> JNull then Inr (fix (JStr (jsString env v)))
         else Inr drop)
      else if str_includes expectedType ''array'' then
        (if \<not> isArray v then
           (if typeof v = ''string'' \<and> str_includes expectedType ''Portable Text'' then
              Inr (fix (JArr [portable_text_block
                                (''block-'' @ now env @ ''-'' @ random2 env)
                                (''span-'' @ now env @ ''-'' @ random2 env)
                                (jsString env v)]))
            else if str_includes expectedType ''strings'' then
              Inr (fix (JArr [JStr (jsString env v)]))
            else Inr drop)
         else Inr unchanged)
      else if expectedType = ''number'' then
        (if typeof v = ''number'' then Inr unchanged
         else if typeof v = ''string'' \<and> string_to_number env (jsString env v) \<noteq> None then
           Inr (fix (JNum (the (string_to_number env (jsString env v)))))
         else Inr drop)
      else Inr unchanged)"

text \<open>What the caller in \<^verbatim>\<open>applyAutoFixes\<close> does with the result, for the field \<open>fieldName\<close> of
  block \<open>b\<close>.\<close>

definition apply_fix_result :: "string \<Rightarrow> fix_result \<Rightarrow> json \<Rightarrow> json" where
  "apply_fix_result fieldName r b =
     (if fixed r then
        (case new_value r of Some nv \<Rightarrow> set_prop fieldName nv b | None \<Rightarrow> b)
      else if dropped r then delete_prop fieldName b
      else b)"

section \<open>Block-specific repairers\<close>

text \<open>\<^verbatim>\<open>sanitizeReferenceOnlyArray\<close>.\<close>

definition cleanRef :: "json \<Rightarrow> json" where
  "cleanRef item =
     JObj ([(''_type'', JStr ''reference'')]
           @ (case prop_of item ''_ref'' of Some r \<Rightarrow> [(''_ref'', r)] | None \<Rightarrow> [])
           @ (if truthy_prop (prop_of item ''_key'')
              then [(''_key'', the (prop_of item ''_key''))] else [])
           @ (if truthy_prop (prop_of item ''_weak'')
              then [(''_weak'', the (prop_of item ''_weak''))] else []))"

definition is_string_prop :: "json option \<Rightarrow> bool" where
  "is_string_prop v = (case v of Some (JStr _) \<Rightarrow> True | _ \<Rightarrow> False)"

definition keep_reference :: "json \<Rightarrow> json option" where
  "keep_reference item =
     (if \<not> truthy item \<or> typeof item \<noteq> ''object'' then None
      else if prop_of item ''_type'' = Some (JStr ''reference'')
              \<and> is_string_prop (prop_of item ''_ref'')
              \<and> (case prop_of item ''_ref'' of Some (JStr r) \<Rightarrow> trim r \<noteq> [] | _ \<Rightarrow> False)
           then Some (cleanRef item)
      else if truthy_prop (prop_of item ''_ref'') \<and> is_string_prop (prop_of item ''_ref'')
           then Some (cleanRef item)
      else None)"

record ref_array_result =
  ra_fixed :: bool
  ra_value :: "json list option"
  originalCount :: nat
  validCount :: nat
  droppedCount :: nat

definition sanitizeReferenceOnlyArray :: "json \<Rightarrow> ref_array_result" where
  "sanitizeReferenceOnlyArray v =
     (case v of
        JArr items \<Rightarrow>
          (let validReferences = List.map_filter keep_reference items;
               nDropped = length (filter (\<lambda>item. keep_reference item = None) items)
           in \<lparr>ra_fixed = (length validReferences \<noteq> length items \<or> nDropped > 0),
               ra_value = Some validReferences,
               originalCount = length items,
               validCount = length validReferences,
               droppedCount = nDropped\<rparr>)
      | _ \<Rightarrow> \<lparr>ra_fixed = False, ra_value = None, originalCount = 0, validCount = 0,
               droppedCount = 0\<rparr>)"

text \<open>\<^verbatim>\<open>removeProblematicFields\<close>: the object afterwards and the number of fields removed.\<close>

fun removeProblematicFields :: "json \<Rightarrow> string list \<Rightarrow> json \<times> nat" where
  "removeProblematicFields obj [] = (obj, 0)"
| "removeProblematicFields obj (f # fs) =
     (if has_key obj f
      then (let (obj', n) = removeProblematicFields (delete_prop f obj) fs in (obj', Suc n))
      else removeProblematicFields obj fs)"

text \<open>\<^verbatim>\<open>fixFaqGroup\<close>: the block afterwards, \<^verbatim>\<open>fixesApplied\<close> and \<^verbatim>\<open>violationsDetected\<close>.\<close>

definition valid_faq_item :: "json \<Rightarrow> bool" where
  "valid_faq_item item =
     (truthy item \<and> typeof item = ''object''
      \<and> prop_of item ''_type'' = Some (JStr ''faqItem'')
      \<and> is_string_prop (prop_of item ''question'')
      \<and> (case prop_of item ''answer'' of Some a \<Rightarrow> isArray a | None \<Rightarrow> False))"

definition placeholder_faq_item :: "js_env \<Rightarrow> json" where
  "placeholder_faq_item env =
     JObj [(''_type'', JStr ''faqItem''),
           (''_key'', JStr (''faq-'' @ now env @ ''-'' @ random2 env)),
           (''question'', JStr (''Placeholder sp'' @ [CHR 0xC3, CHR 0xB8] @ ''rgsm'' @ [CHR 0xC3, CHR 0xA5] @ ''l'')),
           (''answer'', JArr [portable_text_block (''block-'' @ now env) (''span-'' @ now env)
                                ''FAQ-indhold mangler.''])]"

definition faq_items_of :: "json \<Rightarrow> json list" where
  "faq_items_of block = (case prop_of block ''faqItems'' of Some (JArr items) \<Rightarrow> items | _ \<Rightarrow> [])"

definition fixFaqGroup :: "js_env \<Rightarrow> json \<Rightarrow> json \<times> nat \<times> nat" where
  "fixFaqGroup env block =
     (let wasArray = (case prop_of block ''faqItems'' of Some a \<Rightarrow> isArray a | None \<Rightarrow> False);
          items = faq_items_of block;
          originalCount = length items;
          kept = filter valid_faq_item items;
          violationsDetected = length (filter (\<lambda>item. \<not> valid_faq_item item) items);
          final = (if length kept = 0 then kept @ [placeholder_faq_item env] else kept);
          fixesApplied = (if wasArray then 0 else 1)
                       + (if length kept \<noteq> originalCount then 1 else 0)
                       + (if length kept = 0 then 1 else 0)
      in (set_prop ''faqItems'' (JArr final) block, fixesApplied, violationsDetected))"

text \<open>\<^verbatim>\<open>fixProviderList\<close>. The \<^verbatim>\<open>some\<close> callback reads \<^verbatim>\<open>p._type\<close> after \<^verbatim>\<open>typeof p !== 'object'\<close>
  has let \<^verbatim>\<open>null\<close> through; \<^verbatim>\<open>some\<close> stops at the first entry for which the callback is true.\<close>

definition provider_entry_bad :: "nat \<Rightarrow> json \<Rightarrow> error + bool" where
  "provider_entry_bad i p =
     (if typeof p \<noteq> ''object'' then Inr True
      else
        (case get p ''_type'' of
           Inl e \<Rightarrow> Inl e
         | Inr t \<Rightarrow>
             Inr (t \<noteq> Some (JStr ''reference'')
                  \<or> \<not> truthy_prop (prop_of p ''_ref'')
                  \<or> \<not> isValidProviderId (prop_of p ''_ref'')
                  \<or> (i = 0 \<and> prop_of p ''_ref'' \<noteq> Some (JStr (PROVIDER_WHITELIST ! 0))))))"

fun some_provider_bad :: "nat \<Rightarrow> json list \<Rightarrow> error + bool" where
  "some_provider_bad i [] = Inr False"
| "some_provider_bad i (p # ps) =
     (case provider_entry_bad i p of
        Inl e \<Rightarrow> Inl e
      | Inr bad \<Rightarrow> if bad then Inr True else some_provider_bad (Suc i) ps)"

definition providers_need_fix :: "json \<Rightarrow> error + bool" where
  "providers_need_fix block =
     (case prop_of block ''providers'' of
        Some (JArr ps) \<Rightarrow> if length ps = 0 then Inr True else some_provider_bad 0 ps
      | _ \<Rightarrow> Inr True)"

definition whitelisted_refs :: "js_env \<Rightarrow> json list" where
  "whitelisted_refs env =
     map (\<lambda>id. JObj [(''_type'', JStr ''reference''), (''_ref'', JStr id),
                      (''_key'', JStr (''provider-'' @ now env @ ''-'' @ random2 env))])
         (take (min 4 (length PROVIDER_WHITELIST)) PROVIDER_WHITELIST)"

definition fixProviderList :: "js_env \<Rightarrow> json \<Rightarrow> error + (json \<times> nat \<times> nat)" where
  "fixProviderList env block =
     (case providers_need_fix block of
        Inl e \<Rightarrow> Inl e
      | Inr needsfix \<Rightarrow>
          if needsfix then
            Inr (set_prop ''providers'' (JArr (whitelisted_refs env)) block, 1,
                 if length (whitelisted_refs env) = 0 then 1 else 0)
          else Inr (block, 0, 0))"

section \<open>sanitizeAllReferences\<close>

definition allowedKeys :: "string list" where
  "allowedKeys = [''_type'', ''_ref'', ''_key'', ''_weak'']"

text \<open>The three steps applied to an object that bears a truthy \<^verbatim>\<open>_ref\<close> or has
  \<^verbatim>\<open>_type === 'reference'\<close>: the key-value list afterwards and the number of steps that
  changed something.\<close>

definition sanitize_reference :: "(string \<times> json) list \<Rightarrow> nat \<times> (string \<times> json) list" where
  "sanitize_reference kvs =
     (let invalidKeys = filter (\<lambda>key. key \<notin> set allowedKeys) (map fst kvs);
          kvs1 = fold AList.delete invalidKeys kvs;
          c1 = (if length invalidKeys > 0 then 1 else 0);
          fixType = (truthy_prop (map_of kvs1 ''_ref'')
                     \<and> map_of kvs1 ''_type'' \<noteq> Some (JStr ''reference''));
          kvs2 = (if fixType then AList.update ''_type'' (JStr ''reference'') kvs1 else kvs1);
          c2 = (if fixType then 1 else 0);
          dropRef = (truthy_prop (map_of kvs2 ''_ref'') \<and> \<not> is_string_prop (map_of kvs2 ''_ref''));
          kvs3 = (if dropRef then AList.delete ''_ref'' kvs2 else kvs2);
          c3 = (if dropRef then 1 else 0)
      in (c1 + c2 + c3, kvs3))"

text \<open>\<^verbatim>\<open>sanitizeAllReferences\<close> mutates the graph in place and returns a count; the model
  returns the count and the graph afterwards. The graph is a tree (the blocks are deep
  copies made with \<^verbatim>\<open>JSON.parse(JSON.stringify(blk))\<close>), so the recursive calls on the
  children do not interfere.\<close>

fun sanitizeAllReferences :: "json \<Rightarrow> nat \<times> json" where
  "sanitizeAllReferences (JArr xs) =
     (let rs = map sanitizeAllReferences xs
      in (sum_list (map fst rs), JArr (map snd rs)))"
| "sanitizeAllReferences (JObj kvs) =
     (if truthy_prop (map_of kvs ''_ref'') \<or> map_of kvs ''_type'' = Some (JStr ''reference'')
      then (let (n, kvs') = sanitize_reference kvs in (n, JObj kvs'))
      else
        (let rs = map (\<lambda>kv. (fst kv, sanitizeAllReferences (snd kv))) kvs
         in (sum_list (map (\<lambda>r. fst (snd r)) rs), JObj (map (\<lambda>r. (fst r, snd (snd r))) rs))))"
| "sanitizeAllReferences v = (0, v)"

section \<open>applyAutoFixes (openrouter.ts, line 423)\<close>

text \<open>\<^verbatim>\<open>extractSchemaFieldTypes\<close>: the \<^verbatim>\<open>fieldTypes\<close> table of every manifest entry that has a
  non-empty \<^verbatim>\<open>type\<close> and a \<^verbatim>\<open>fieldTypes\<close> object, keyed by type; a later entry of the same type
  overwrites an earlier one.\<close>

definition extractSchemaFieldTypes ::
  "schema_manifest option \<Rightarrow> string \<Rightarrow> (string \<times> string) list option" where
  "extractSchemaFieldTypes sch =
     (case block_types_of sch of
        None \<Rightarrow> Map.empty
      | Some cbts \<Rightarrow>
          map_of (rev (List.map_filter
            (\<lambda>blockType.
               (case fieldTypes blockType of
                  Some fts \<Rightarrow> if btype blockType \<noteq> [] then Some (btype blockType, fts) else None
                | None \<Rightarrow> None)) cbts)))"

text \<open>\<^verbatim>\<open>extractReferenceOnlyFields\<close>.\<close>

definition extractReferenceOnlyFields ::
  "schema_manifest option \<Rightarrow> string \<Rightarrow> string list option" where
  "extractReferenceOnlyFields sch =
     (case block_types_of sch of
        None \<Rightarrow> Map.empty
      | Some cbts \<Rightarrow>
          map_of (rev (List.map_filter
            (\<lambda>blockType.
               (let refFields =
                      (case fieldTypes blockType of
                         None \<Rightarrow> []
                       | Some fts \<Rightarrow>
                           map fst (filter (\<lambda>(fieldName, fieldType).
                             str_includes fieldType ''references''
                             \<or> str_includes fieldType ''reference'') fts))
                in if length refFields > 0 then Some (btype blockType, refFields) else None))
            cbts)))"

text \<open>A loop over a snapshot of names that updates the block and may throw.\<close>

fun fold_err :: "('a \<Rightarrow> 's \<Rightarrow> error + 's) \<Rightarrow> 'a list \<Rightarrow> 's \<Rightarrow> error + 's" where
  "fold_err f [] s = Inr s"
| "fold_err f (x # xs) s = (case f x s of Inl e \<Rightarrow> Inl e | Inr s' \<Rightarrow> fold_err f xs s')"

definition keys_of :: "json \<Rightarrow> string list" where
  "keys_of v = (case v of JObj kvs \<Rightarrow> map fst kvs | _ \<Rightarrow> [])"

text \<open>The decimal rendering of an array index, for the keys of a spread array.\<close>

function string_of_nat :: "nat \<Rightarrow> string" where
  "string_of_nat n =
     (if n < 10 then [char_of (48 + n)]
      else string_of_nat (n div 10) @ [char_of (48 + n mod 10)])"
  by pat_completeness auto
termination
  by (relation "measure id") auto

text \<open>\<^verbatim>\<open>{ ...v }\<close>: the own enumerable properties of \<open>v\<close>. An array spreads to its indices, a
  string to its characters, \<^verbatim>\<open>null\<close>, numbers and booleans to the empty object.\<close>

definition spread :: "json \<Rightarrow> json" where
  "spread v =
     (case v of
        JObj kvs \<Rightarrow> JObj kvs
      | JArr xs \<Rightarrow> JObj (map (\<lambda>(i, x). (string_of_nat i, x)) (enumerate 0 xs))
      | JStr s \<Rightarrow> JObj (map (\<lambda>(i, c). (string_of_nat i, JStr [c])) (enumerate 0 s))
      | _ \<Rightarrow> JObj [])"

text \<open>The field-type enforcement loop body, for one name of \<^verbatim>\<open>Object.keys(b)\<close>.\<close>

definition enforce_field ::
  "js_env \<Rightarrow> (string \<times> string) list \<Rightarrow> string \<Rightarrow> json \<Rightarrow> error + json" where
  "enforce_field env blockSchema fieldName b =
     (if starts_with fieldName ''_'' then Inr b
      else
        (case map_of blockSchema fieldName of
           None \<Rightarrow> Inr b
         | Some expectedType \<Rightarrow>
             if expectedType = [] then Inr b
             else
               (case prop_of b fieldName of
                  None \<Rightarrow> Inr b
                | Some currentValue \<Rightarrow>
                    (case enforceFieldType env fieldName currentValue expectedType of
                       Inl e \<Rightarrow> Inl e
                     | Inr fixResult \<Rightarrow> Inr (apply_fix_result fieldName fixResult b)))))"

text \<open>The reference-only loop body, for one reference field of the block's type.\<close>

definition sanitize_reference_field :: "string \<Rightarrow> json \<Rightarrow> json" where
  "sanitize_reference_field fieldName b =
     (if \<not> has_key b fieldName then b
      else
        (case prop_of b fieldName of
           None \<Rightarrow> b
         | Some v \<Rightarrow>
             (let fixResult = sanitizeReferenceOnlyArray v
              in if ra_fixed fixResult
                 then (case ra_value fixResult of
                         Some refs \<Rightarrow> set_prop fieldName (JArr refs) b
                       | None \<Rightarrow> b)
                 else b)))"

text \<open>The cleaning of \<^verbatim>\<open>valueProposition.items\<close> and \<^verbatim>\<open>featureList.features\<close>: the cleaned
  copies replace the array only when an entry was dropped.\<close>

definition clean_nested :: "string \<Rightarrow> json \<Rightarrow> json" where
  "clean_nested fieldName b =
     (case prop_of b fieldName of
        Some (JArr items) \<Rightarrow>
          (let cleaned = List.map_filter
                 (\<lambda>item. if \<not> truthy item \<or> typeof item \<noteq> ''object'' then None
                          else Some (fst (removeProblematicFields (spread item) [''icon''])))
                 items
           in if length cleaned \<noteq> length items then set_prop fieldName (JArr cleaned) b
              else b)
      | _ \<Rightarrow> b)"

text \<open>The callback of \<^verbatim>\<open>contentBlocks.map\<close>: \<open>None\<close> is the \<^verbatim>\<open>null\<close> that the final
  \<^verbatim>\<open>filter(Boolean)\<close> removes. The deep copy \<^verbatim>\<open>JSON.parse(JSON.stringify(blk))\<close> of a JSON
  value is the value itself. The counters are only logged.\<close>

definition fix_block ::
  "js_env \<Rightarrow> (string \<Rightarrow> (string \<times> string) list option) \<Rightarrow> (string \<Rightarrow> string list option)
   \<Rightarrow> json \<Rightarrow> error + json option" where
  "fix_block env schemaFieldTypes referenceOnlyFields blk =
     (if \<not> truthy blk \<or> typeof blk \<noteq> ''object'' then Inr None
      else
        (case prop_of blk ''_type'' of
           Some (JStr t) \<Rightarrow>
             if t = [] then Inr None
             else
               (let b1 = (if \<not> truthy_prop (prop_of blk ''_key'')
                             \<or> \<not> is_string_prop (prop_of blk ''_key'')
                             \<or> (case prop_of blk ''_key'' of
                                   Some (JStr k) \<Rightarrow> trim k = [] | _ \<Rightarrow> True)
                          then set_prop ''_key'' (JStr (t @ ''-'' @ now env @ ''-'' @ random4 env)) blk
                          else blk);
                    b2 = fst (removeProblematicFields b1 [''icon'']);
                    b3 = (if t = ''videoSection'' \<and> has_key b2 ''customThumbnail''
                          then delete_prop ''customThumbnail'' b2 else b2);
                    blockSchema = (case schemaFieldTypes t of Some fts \<Rightarrow> fts | None \<Rightarrow> [])
                in case fold_err (enforce_field env blockSchema) (keys_of b3) b3 of
                     Inl e \<Rightarrow> Inl e
                   | Inr b4 \<Rightarrow>
                       (let referenceFields =
                              (case referenceOnlyFields t of Some fs \<Rightarrow> fs | None \<Rightarrow> []);
                            b5 = fold sanitize_reference_field referenceFields b4;
                            b6 = (if t = ''faqGroup'' then fst (fixFaqGroup env b5) else b5)
                        in case (if t = ''providerList''
                                 then (case fixProviderList env b6 of
                                         Inl e \<Rightarrow> Inl e | Inr r \<Rightarrow> Inr (fst r))
                                 else Inr b6) of
                             Inl e \<Rightarrow> Inl e
                           | Inr b7 \<Rightarrow>
                               (let b8 = (if t = ''valueProposition''
                                          then clean_nested ''items'' b7 else b7);
                                    b9 = (if t = ''featureList''
                                          then clean_nested ''features'' b8 else b8)
                                in Inr (Some b9))))
         | _ \<Rightarrow> Inr None))"

definition applyAutoFixes :: "js_env \<Rightarrow> json list \<Rightarrow> schema_manifest option \<Rightarrow> error + json list" where
  "applyAutoFixes env contentBlocks sch =
     (case map_err (fix_block env (extractSchemaFieldTypes sch) (extractReferenceOnlyFields sch))
             contentBlocks of
        Inl e \<Rightarrow> Inl e
      | Inr rs \<Rightarrow>
          Inr (map (\<lambda>block. snd (sanitizeAllReferences block)) (List.map_filter id rs)))"

section \<open>The boundary scan of the extractor\<close>

text \<open>
  The third extraction stage is \<^verbatim>\<open>content.match(/\{(?:[^{}]|{(?:[^{}]|{[^{}]*})*})*\}/)\<close>.
  The pattern uses literal characters, a negated character class, sequence, alternation and
  the greedy star; \<open>matches\<close> is a backtracking matcher for these: the remainders of the
  input after each way of matching, in the order in which a backtracking engine tries them
  (left alternative first, longest repetition first). An iteration of a star that consumes
  nothing is not repeated.
\<close>

datatype regex =
    Lit char
  | NoneOf "char list"
  | Seq regex regex
  | Alt regex regex
  | Star regex

function matches :: "regex \<Rightarrow> string \<Rightarrow> string list" where
  "matches (Lit c) s = (case s of [] \<Rightarrow> [] | x # xs \<Rightarrow> if x = c then [xs] else [])"
| "matches (NoneOf cs) s = (case s of [] \<Rightarrow> [] | x # xs \<Rightarrow> if x \<notin> set cs then [xs] else [])"
| "matches (Seq a b) s = concat (map (matches b) (matches a s))"
| "matches (Alt a b) s = matches a s @ matches b s"
| "matches (Star a) s =
     concat (map (\<lambda>s'. if length s' < length s then matches (Star a) s' else [])
               (matches a s)) @ [s]"
  by pat_completeness auto
termination
  by (relation "measures [\<lambda>(r, s). size r, \<lambda>(r, s). length s]") auto

text \<open>The match that starts at the beginning of \<open>s\<close>, and \<^verbatim>\<open>s.match(r)\<close> without the \<^verbatim>\<open>g\<close>
  flag: the match at the leftmost position that has one (\<^verbatim>\<open>jsonMatch[0]\<close>), or \<^verbatim>\<open>null\<close>.\<close>

definition match_here :: "regex \<Rightarrow> string \<Rightarrow> string option" where
  "match_here r s =
     (case matches r s of [] \<Rightarrow> None | rest # _ \<Rightarrow> Some (take (length s - length rest) s))"

fun js_match :: "regex \<Rightarrow> string \<Rightarrow> string option" where
  "js_match r [] = match_here r []"
| "js_match r (c # cs) =
     (case match_here r (c # cs) of Some m \<Rightarrow> Some m | None \<Rightarrow> js_match r cs)"

definition not_brace :: regex where
  "not_brace = NoneOf ''{}''"

definition boundary_regex :: regex where
  "boundary_regex =
     Seq (Lit CHR ''{'')
       (Seq (Star (Alt not_brace
                 (Seq (Lit CHR ''{'')
                    (Seq (Star (Alt not_brace
                              (Seq (Lit CHR ''{'') (Seq (Star not_brace) (Lit CHR ''}'')))))
                         (Lit CHR ''}'')))))
            (Lit CHR ''}''))"

text \<open>Attempt 3 of the cascade: \<^verbatim>\<open>JSON.parse(jsonMatch[0])\<close> when the pattern matches; \<open>None\<close>
  leaves \<^verbatim>\<open>parsed\<close> undefined (no match, or the parse threw).\<close>

definition boundaryDetection :: "js_env \<Rightarrow> string \<Rightarrow> json option" where
  "boundaryDetection env content =
     (case js_match boundary_regex content of
        None \<Rightarrow> None
      | Some m \<Rightarrow> JSON_parse env m)"

text \<open>
  What the claim about the boundary scan calls the balanced matching brace:
  \<open>closing_rest maxd d s\<close> reads \<open>s\<close> inside \<open>d\<close> open braces and returns what follows the
  brace that closes the outermost of them, provided the nesting never exceeds \<open>maxd\<close>.
  \<open>brace_group maxd s\<close>: \<open>s\<close> starts with an opening brace, ends with the brace that closes
  it, and nests at most \<open>maxd\<close> deep.
\<close>

fun closing_rest :: "nat \<Rightarrow> nat \<Rightarrow> string \<Rightarrow> string option" where
  "closing_rest maxd d [] = None"
| "closing_rest maxd d (c # cs) =
     (if c = CHR ''{'' then (if d < maxd then closing_rest maxd (Suc d) cs else None)
      else if c = CHR ''}'' then (if d \<le> 1 then Some cs else closing_rest maxd (d - 1) cs)
      else closing_rest maxd d cs)"

definition brace_group :: "nat \<Rightarrow> string \<Rightarrow> bool" where
  "brace_group maxd s =
     (case s of [] \<Rightarrow> False | c # cs \<Rightarrow> c = CHR ''{'' \<and> closing_rest maxd 1 cs = Some [])"

section \<open>generateContent (openrouter.ts, line 1062)\<close>

text \<open>
  The file openrouter.ts holds the module twice: the current text from line 1, and from line
  1320 an earlier text of the same module, whose single-attempt parse \<^verbatim>\<open>dev_log.md\<close> lists as
  the old code that the extraction cascade and the fail-safe replaced. The definitions here
  follow the current text.
\<close>

text \<open>The extraction cascade: the value of \<^verbatim>\<open>parsed\<close> when the blocks are read off it. A later
  attempt runs only while \<^verbatim>\<open>parsed\<close> is falsy.\<close>

definition extractJson :: "js_env \<Rightarrow> string \<Rightarrow> json" where
  "extractJson env content =
     (case JSON_parse env content of
        Some parsed \<Rightarrow> parsed
      | None \<Rightarrow>
          (let p2 = (case codeBlockMatch env content of
                       None \<Rightarrow> None
                     | Some g \<Rightarrow> JSON_parse env g);
               p3 = (if \<not> truthy_prop p2
                     then (case boundaryDetection env content of Some v \<Rightarrow> Some v | None \<Rightarrow> p2)
                     else p2);
               p4 = (if \<not> truthy_prop p3
                     then (case JSON_parse env (contentCleaning env content) of
                             Some v \<Rightarrow> Some v | None \<Rightarrow> p3)
                     else p3)
           in case p4 of
                Some v \<Rightarrow> if truthy v then v else JObj [(''contentBlocks'', JArr [])]
              | None \<Rightarrow> JObj [(''contentBlocks'', JArr [])]))"

text \<open>\<^verbatim>\<open>Array.isArray(parsed?.contentBlocks) ? parsed.contentBlocks : Array.isArray(parsed) ?
  parsed : []\<close>.\<close>

definition blocks_of :: "json \<Rightarrow> json list" where
  "blocks_of parsed =
     (case prop_of parsed ''contentBlocks'' of
        Some (JArr bs) \<Rightarrow> bs
      | _ \<Rightarrow> (case parsed of JArr bs \<Rightarrow> bs | _ \<Rightarrow> []))"

text \<open>
  The \<^verbatim>\<open>GenerationResponse\<close>: \<open>Success\<close> carries \<^verbatim>\<open>data.contentBlocks\<close> (the token counters
  are copied from the provider's response and left out here), \<open>Failure\<close> the reason behind
  the error string: the request check's errors, the validator's warnings, or the exception
  that the enclosing \<^verbatim>\<open>try\<close>/\<^verbatim>\<open>catch\<close> turned into a message.
\<close>

datatype failure =
    ValidationFailed "string list"
  | AutoFixFailed "warning list"
  | Thrown error

datatype GenerationResponse =
    Success "json list"
  | Failure failure

definition fallbackBlock :: "js_env \<Rightarrow> json" where
  "fallbackBlock env =
     JObj [(''_type'', JStr ''pageSection''),
           (''_key'', JStr (''fallback-'' @ now env @ ''-'' @ random4 env)),
           (''title'', JStr ''Indhold ikke genereret''),
           (''content'',
            JArr [portable_text_block
                    (''block-'' @ now env @ ''-'' @ random2 env)
                    (''span-'' @ now env @ ''-'' @ random2 env)
                    (''AI-indholdet kunne ikke genereres korrekt. Pr'' @ [CHR 0xC3, CHR 0xB8]
                     @ ''v venligst igen med en anden model eller just'' @ [CHR 0xC3, CHR 0xA9]
                     @ ''r dine indstillinger.'')])]"

text \<open>From \<^verbatim>\<open>applyAutoFixes(blocks, request.schema)\<close> to the \<^verbatim>\<open>return\<close> (lines 1214 to 1272).\<close>

definition fix_and_validate ::
  "js_env \<Rightarrow> schema_manifest option \<Rightarrow> json list \<Rightarrow> GenerationResponse" where
  "fix_and_validate env sch blocks =
     (case applyAutoFixes env blocks sch of
        Inl e \<Rightarrow> Failure (Thrown e)
      | Inr fixed0 \<Rightarrow>
          (let fixedBlocks = (if length fixed0 = 0 then [fallbackBlock env] else fixed0)
           in case validateContentBlocks fixedBlocks sch of
                Inl e \<Rightarrow> Failure (Thrown e)
              | Inr (isValid, warnings) \<Rightarrow>
                  if \<not> isValid then Failure (AutoFixFailed warnings)
                  else Success fixedBlocks))"

text \<open>
  \<^verbatim>\<open>createSystemPrompt(request)\<close> builds the prompt text, which goes to the provider only; what
  the pipeline sees of it is whether it throws. It calls \<^verbatim>\<open>summarizeSchema\<close>, which reads
  \<^verbatim>\<open>block.requiredFields.length\<close> of every manifest entry: an entry without
  \<^verbatim>\<open>requiredFields\<close> raises a TypeError. Nothing else in it can throw on a typed request.
\<close>

definition summarizeSchema_throws :: "schema_manifest option \<Rightarrow> bool" where
  "summarizeSchema_throws sch =
     (case block_types_of sch of
        None \<Rightarrow> False
      | Some cbts \<Rightarrow> list_ex (\<lambda>block. requiredFields block = None) cbts)"

definition createSystemPrompt_throws :: "GenerationRequest \<Rightarrow> bool" where
  "createSystemPrompt_throws request = summarizeSchema_throws (schema request)"

text \<open>\<^verbatim>\<open>generateContent\<close> from the request check on, with the provider's reply \<open>content\<close>
  given (the network call is outside the model). An exception anywhere inside is caught by
  the enclosing \<^verbatim>\<open>try\<close>/\<^verbatim>\<open>catch\<close> and becomes a failure. Between extraction and repair the
  code logs \<^verbatim>\<open>blocks.map(b => b._type)\<close>, which throws when a block is \<^verbatim>\<open>null\<close>.\<close>

definition generateContent :: "js_env \<Rightarrow> GenerationRequest \<Rightarrow> string \<Rightarrow> GenerationResponse" where
  "generateContent env request content =
     (case validateGenerationRequest request of
        (ok, errs) \<Rightarrow>
          if \<not> ok then Failure (ValidationFailed errs)
          else if createSystemPrompt_throws request then Failure (Thrown TypeError)
          else
            (let blocks = blocks_of (extractJson env content)
             in if JNull \<in> set blocks then Failure (Thrown TypeError)
                else fix_and_validate env (schema request) blocks))"

section \<open>Auxiliary definitions for the statements\<close>

text \<open>The position of each kind of issue in the validator's per-block sequence of checks.\<close>

fun issue_rank :: "block_issue \<Rightarrow> nat" where
  "issue_rank MissingType = 0"
| "issue_rank (MissingKey _) = 1"
| "issue_rank (InvalidType _ _) = 2"
| "issue_rank (MissingRequired _) = 3"
| "issue_rank (FieldIssue _ _) = 4"
| "issue_rank (EnumViolation _ _ _) = 5"

text \<open>What the provider-list repair is meant to establish for one entry: a reference object
  whose \<^verbatim>\<open>_ref\<close> is on the allow-list.\<close>

definition provider_entry_ok :: "json \<Rightarrow> bool" where
  "provider_entry_ok p \<longleftrightarrow>
     typeof p = ''object'' \<and> prop_of p ''_type'' = Some (JStr ''reference'')
     \<and> isValidProviderId (prop_of p ''_ref'')"

text \<open>A fixed environment for evaluating the repair code on concrete inputs.\<close>

definition sample_env :: js_env where
  "sample_env =
     \<lparr>number_to_string = (\<lambda>n. ''0''), string_to_number = (\<lambda>s. None),
      JSON_parse = (\<lambda>s. None), JSON_stringify = (\<lambda>j. ''null''),
      codeBlockMatch = (\<lambda>s. None), contentCleaning = (\<lambda>s. s),
      now = ''1735551600000'', random2 = ''ab'', random4 = ''abcd''\<rparr>"

text \<open>An optional result as the list of a backtracking matcher's alternatives.\<close>

definition otl :: "'a option \<Rightarrow> 'a list" where
  "otl x = (case x of None \<Rightarrow> [] | Some y \<Rightarrow> [y])"

text \<open>An environment whose \<^verbatim>\<open>JSON.parse\<close> knows two texts: a document with one hero block,
  whose braces nest four deep, and that hero block on its own.\<close>

definition reply_env :: js_env where
  \<open>reply_env = sample_env\<lparr>JSON_parse :=
     (\<lambda>s. if s = ''{"contentBlocks":[{"_type":"hero","_key":"h1","headline":"X","image":{"asset":{"_ref":"img"}}}]}''
           then Some (JObj [(''contentBlocks'', JArr
                  [JObj [(''_type'', JStr ''hero''), (''_key'', JStr ''h1''),
                         (''headline'', JStr ''X''),
                         (''image'', JObj [(''asset'', JObj [(''_ref'', JStr ''img'')])])]])])
           else if s = ''{"_type":"hero","_key":"h1","headline":"X","image":{"asset":{"_ref":"img"}}}''
           then Some (JObj [(''_type'', JStr ''hero''), (''_key'', JStr ''h1''),
                            (''headline'', JStr ''X''),
                            (''image'', JObj [(''asset'', JObj [(''_ref'', JStr ''img'')])])])
           else None)\<rparr>\<close>

section \<open>Properties of the compliance validator\<close>

lemma collect_Nil_iff: "collect f xs = Inr [] \<longleftrightarrow> (\<forall>x \<in> set xs. f x = Inr [])"
  by (induction xs) (auto split: sum.splits)

lemma collect_Inr_set:
  "collect f xs = Inr ws \<Longrightarrow> w \<in> set ws \<Longrightarrow> \<exists>x \<in> set xs. \<exists>vs. f x = Inr vs \<and> w \<in> set vs"
  by (induction xs arbitrary: ws) (auto split: sum.splits)

lemma key_issues_rank: "w \<in> set (key_issues b) \<Longrightarrow> issue_rank w = 1"
  by (auto simp: key_issues_def split: if_splits)

lemma required_issues_rank: "w \<in> set (required_issues mb b) \<Longrightarrow> issue_rank w = 3"
  by (auto simp: required_issues_def split: option.splits if_splits)

lemma enum_issues_rank: "w \<in> set (enum_issues mb b) \<Longrightarrow> issue_rank w = 5"
  by (auto simp: enum_issues_def split: option.splits if_splits)

lemma field_type_issues_rank:
  assumes "field_type_issues mb t b = Inr ws" "w \<in> set ws"
  shows "issue_rank w = 4"
proof (cases "Option.bind mb fieldTypes")
  case None
  with assms show ?thesis by (simp add: field_type_issues_def)
next
  case (Some fts)
  with assms obtain x vs where
    "(case x of (fieldName, fieldType) \<Rightarrow>
        (case non_null (prop_of b fieldName) of
           None \<Rightarrow> Inr []
         | Some fieldValue \<Rightarrow>
             (case validateFieldType fieldName fieldValue fieldType t of
                Inl e \<Rightarrow> Inl e
              | Inr ws \<Rightarrow> Inr (map (FieldIssue fieldName) ws)))) = Inr vs" "w \<in> set vs"
    unfolding field_type_issues_def by (auto dest!: collect_Inr_set)
  then show ?thesis
    by (auto split: prod.splits option.splits sum.splits)
qed

lemma const_rank_sorted:
  "(\<And>w. w \<in> set xs \<Longrightarrow> issue_rank w = a) \<Longrightarrow> sorted (map issue_rank xs)"
  by (induction xs) auto

lemma validate_block_sorted:
  assumes "validate_block cbts block = Inr ws"
  shows "sorted (map issue_rank ws)"
proof -
  have k2: "sorted (map issue_rank (key_issues block @ [InvalidType t ts]))" for t ts
    by (simp add: key_issues_def)
  have known: "sorted (map issue_rank (key_issues block @ required_issues mb block @ tws @ enum_issues mb block))"
    if "field_type_issues mb t block = Inr tws" for mb t tws
  proof -
    have r4: "\<And>w. w \<in> set tws \<Longrightarrow> issue_rank w = 4"
      using field_type_issues_rank [OF that] by blast
    have "sorted (map issue_rank (key_issues block))"
      "sorted (map issue_rank (required_issues mb block))"
      "sorted (map issue_rank tws)"
      "sorted (map issue_rank (enum_issues mb block))"
      using const_rank_sorted key_issues_rank required_issues_rank r4 enum_issues_rank
      by blast+
    then show ?thesis
      by (auto simp: sorted_append dest!: key_issues_rank required_issues_rank r4 enum_issues_rank)
  qed
  from assms show ?thesis
    unfolding validate_block_def
    by (auto simp: Let_def k2 known split: sum.splits if_splits simp del: map_append)
qed

lemma validate_block_missing_type:
  "validate_block cbts block = Inr ws \<Longrightarrow> \<not> truthy_prop (prop_of block ''_type'') \<Longrightarrow>
   ws = [MissingType]"
  by (auto simp: validate_block_def get_def split: if_splits sum.splits)

lemma validate_block_unknown_type:
  "validate_block cbts block = Inr ws \<Longrightarrow> truthy_prop (prop_of block ''_type'') \<Longrightarrow>
   \<not> type_in_manifest cbts (prop_of block ''_type'') \<Longrightarrow>
   ws = key_issues block @ [InvalidType (prop_of block ''_type'') (map btype cbts)]"
  by (auto simp: validate_block_def get_def split: if_splits sum.splits)

lemma validate_block_key:
  assumes "validate_block cbts block = Inr ws" "truthy_prop (prop_of block ''_type'')"
  shows "MissingKey (prop_of block ''_type'') \<in> set ws \<longleftrightarrow> \<not> truthy_prop (prop_of block ''_key'')"
proof -
  have a: "MissingKey x \<notin> set (required_issues mb block)" for x mb
    using required_issues_rank by fastforce
  have b: "MissingKey x \<notin> set (enum_issues mb block)" for x mb
    using enum_issues_rank by fastforce
  have c: "field_type_issues mb t block = Inr tws \<Longrightarrow> MissingKey x \<notin> set tws" for x mb t tws
    using field_type_issues_rank by fastforce
  from assms show ?thesis
    by (auto simp: validate_block_def get_def Let_def key_issues_def a b c
             split: if_splits sum.splits)
qed

lemma collect_set_iff:
  "collect f xs = Inr ws \<Longrightarrow>
     w \<in> set ws \<longleftrightarrow> (\<exists>x \<in> set xs. \<exists>vs. f x = Inr vs \<and> w \<in> set vs)"
  by (induction xs arbitrary: ws) (auto split: sum.splits)

lemma required_issues_iff:
  "MissingRequired f \<in> set (required_issues mb (JObj kvs)) \<longleftrightarrow>
     (\<exists>rfs. Option.bind mb requiredFields = Some rfs \<and> f \<in> set rfs
        \<and> (map_of kvs f = None \<or> map_of kvs f = Some JNull \<or> map_of kvs f = Some (JStr [])))"
  by (cases "Option.bind mb requiredFields")
     (auto simp: required_issues_def map_of_eq_None_iff)

lemma enum_issues_iff:
  "EnumViolation f vs v \<in> set (enum_issues mb block) \<longleftrightarrow>
     (\<exists>fes. Option.bind mb fieldEnums = Some fes \<and> (f, vs) \<in> set fes
        \<and> non_null (prop_of block f) = Some v \<and> (\<forall>s \<in> set vs. v \<noteq> JStr s))"
  by (cases "Option.bind mb fieldEnums")
     (auto simp: enum_issues_def split: option.splits if_splits)

lemma field_type_issues_iff:
  assumes "field_type_issues mb t block = Inr tws"
  shows "FieldIssue f i \<in> set tws \<longleftrightarrow>
     (\<exists>fts ty v is. Option.bind mb fieldTypes = Some fts \<and> (f, ty) \<in> set fts
        \<and> non_null (prop_of block f) = Some v
        \<and> validateFieldType f v ty t = Inr is \<and> i \<in> set is)"
proof (cases "Option.bind mb fieldTypes")
  case None
  with assms show ?thesis by (simp add: field_type_issues_def)
next
  case (Some fts)
  let ?g = "\<lambda>(fieldName, fieldType).
            (case non_null (prop_of block fieldName) of
               None \<Rightarrow> Inr []
             | Some fieldValue \<Rightarrow>
                 (case validateFieldType fieldName fieldValue fieldType t of
                    Inl e \<Rightarrow> Inl e
                  | Inr ws \<Rightarrow> Inr (map (FieldIssue fieldName) ws)))"
  from Some assms have c: "collect ?g fts = Inr tws"
    by (simp add: field_type_issues_def)
  have "(\<exists>vs. ?g (f', ty) = Inr vs \<and> FieldIssue f i \<in> set vs) \<longleftrightarrow>
        (f' = f \<and> (\<exists>v is. non_null (prop_of block f) = Some v
           \<and> validateFieldType f v ty t = Inr is \<and> i \<in> set is))" for f' ty
    by (auto split: option.splits sum.splits)
  then have "(\<exists>x \<in> set fts. \<exists>vs. ?g x = Inr vs \<and> FieldIssue f i \<in> set vs) \<longleftrightarrow>
        (\<exists>ty v is. (f, ty) \<in> set fts \<and> non_null (prop_of block f) = Some v
           \<and> validateFieldType f v ty t = Inr is \<and> i \<in> set is)"
    by (simp add: Bex_def split_paired_Ex)
  then show ?thesis
    unfolding collect_set_iff [OF c] Some by simp
qed

lemma rank_not_in:
  "(\<And>w. w \<in> set xs \<Longrightarrow> issue_rank w = a) \<Longrightarrow> issue_rank v \<noteq> a \<Longrightarrow> v \<notin> set xs"
  by blast

lemma validate_block_known:
  assumes v: "validate_block cbts block = Inr ws"
    and t: "prop_of block ''_type'' = Some (JStr t)" "t \<noteq> []"
    and k: "type_in_manifest cbts (Some (JStr t))"
  shows "(MissingRequired f \<in> set ws \<longleftrightarrow>
           (\<exists>rfs. Option.bind (manifestBlockMap cbts t) requiredFields = Some rfs \<and> f \<in> set rfs
              \<and> (prop_of block f = None \<or> prop_of block f = Some JNull
                  \<or> prop_of block f = Some (JStr []))))"
    and "(FieldIssue f i \<in> set ws \<longleftrightarrow>
           (\<exists>fts ty v is. Option.bind (manifestBlockMap cbts t) fieldTypes = Some fts
              \<and> (f, ty) \<in> set fts \<and> non_null (prop_of block f) = Some v
              \<and> validateFieldType f v ty t = Inr is \<and> i \<in> set is))"
    and "(EnumViolation f vs x \<in> set ws \<longleftrightarrow>
           (\<exists>fes. Option.bind (manifestBlockMap cbts t) fieldEnums = Some fes
              \<and> (f, vs) \<in> set fes \<and> non_null (prop_of block f) = Some x
              \<and> (\<forall>s \<in> set vs. x \<noteq> JStr s)))"
    and "MissingType \<notin> set ws" and "InvalidType a b \<notin> set ws"
    and "\<exists>tws. field_type_issues (manifestBlockMap cbts t) t block = Inr tws
           \<and> ws = key_issues block @ required_issues (manifestBlockMap cbts t) block @ tws
                  @ enum_issues (manifestBlockMap cbts t) block"
proof -
  let ?mb = "manifestBlockMap cbts t"
  from t obtain kvs where b: "block = JObj kvs" by (cases block) auto
  have "validate_block cbts block =
      (case field_type_issues ?mb t block of
         Inl e \<Rightarrow> Inl e
       | Inr tws \<Rightarrow> Inr (key_issues block @ required_issues ?mb block @ tws
                        @ enum_issues ?mb block))"
    using t k unfolding validate_block_def get_def b by (simp add: Let_def)
  with v obtain tws where ft: "field_type_issues ?mb t block = Inr tws"
    and ws: "ws = key_issues block @ required_issues ?mb block @ tws @ enum_issues ?mb block"
    by (cases "field_type_issues ?mb t block") auto
  note r1 = key_issues_rank [of _ block] and r3 = required_issues_rank [of _ ?mb block]
    and r4 = field_type_issues_rank [OF ft] and r5 = enum_issues_rank [of _ ?mb block]
  have n1: "\<And>v. issue_rank v \<noteq> 1 \<Longrightarrow> v \<notin> set (key_issues block)" using r1 by blast
  have n3: "\<And>v. issue_rank v \<noteq> 3 \<Longrightarrow> v \<notin> set (required_issues ?mb block)" using r3 by blast
  have n4: "\<And>v. issue_rank v \<noteq> 4 \<Longrightarrow> v \<notin> set tws" using r4 by blast
  have n5: "\<And>v. issue_rank v \<noteq> 5 \<Longrightarrow> v \<notin> set (enum_issues ?mb block)" using r5 by blast
  show "(MissingRequired f \<in> set ws \<longleftrightarrow>
           (\<exists>rfs. Option.bind ?mb requiredFields = Some rfs \<and> f \<in> set rfs
              \<and> (prop_of block f = None \<or> prop_of block f = Some JNull
                  \<or> prop_of block f = Some (JStr []))))"
    unfolding ws using required_issues_iff [of f ?mb kvs, folded b]
    by (simp add: n1 n4 n5) (simp add: b)
  show "(FieldIssue f i \<in> set ws \<longleftrightarrow>
           (\<exists>fts ty v is. Option.bind ?mb fieldTypes = Some fts
              \<and> (f, ty) \<in> set fts \<and> non_null (prop_of block f) = Some v
              \<and> validateFieldType f v ty t = Inr is \<and> i \<in> set is))"
    unfolding ws using field_type_issues_iff [OF ft, of f i] by (simp add: n1 n3 n5)
  show "(EnumViolation f vs x \<in> set ws \<longleftrightarrow>
           (\<exists>fes. Option.bind ?mb fieldEnums = Some fes
              \<and> (f, vs) \<in> set fes \<and> non_null (prop_of block f) = Some x
              \<and> (\<forall>s \<in> set vs. x \<noteq> JStr s)))"
    unfolding ws using enum_issues_iff [of f vs x ?mb block] by (simp add: n1 n3 n4)
  show "MissingType \<notin> set ws" unfolding ws by (simp add: n1 n3 n4 n5)
  show "InvalidType a b \<notin> set ws" unfolding ws by (simp add: n1 n3 n4 n5)
  show "\<exists>tws. field_type_issues ?mb t block = Inr tws
           \<and> ws = key_issues block @ required_issues ?mb block @ tws @ enum_issues ?mb block"
    using ft ws by blast
qed

text \<open>
  C6, as the code has it. The issues a block contributes come in the order of the checks:
  type present, key present, type known to the manifest, required fields, declared field
  types, enum constraints. A missing type halts with exactly one warning. An unknown type
  halts after the key check: the block contributes the unknown-type warning, preceded by a
  missing-key warning when it has no key, so one warning with a key and two without. The
  key warning is raised exactly when the key is absent or falsy. For a block whose type the
  manifest knows, a required field is reported exactly when it is declared required and is
  missing, \<^verbatim>\<open>null\<close> or the empty string; a field issue exactly when \<^verbatim>\<open>validateFieldType\<close>
  raises it for a declared field type and the field's non-null value; an enum violation
  exactly when an enum-constrained field has a non-null value outside the allowed set; and
  the warnings are those of the key, required-field, field-type and enum checks, in that
  order.
\<close>

theorem validate_block_order:
  "validate_block cbts block = Inr ws \<Longrightarrow>
     sorted (map issue_rank ws)
     \<and> (\<not> truthy_prop (prop_of block ''_type'') \<longrightarrow> ws = [MissingType])
     \<and> (truthy_prop (prop_of block ''_type'') \<and> \<not> type_in_manifest cbts (prop_of block ''_type'')
          \<longrightarrow> ws = key_issues block @ [InvalidType (prop_of block ''_type'') (map btype cbts)]
              \<and> length ws = (if truthy_prop (prop_of block ''_key'') then 1 else 2))
     \<and> (truthy_prop (prop_of block ''_type'') \<longrightarrow>
          (MissingKey (prop_of block ''_type'') \<in> set ws \<longleftrightarrow> \<not> truthy_prop (prop_of block ''_key'')))
     \<and> (\<forall>t. prop_of block ''_type'' = Some (JStr t) \<and> t \<noteq> []
              \<and> type_in_manifest cbts (Some (JStr t)) \<longrightarrow>
          MissingType \<notin> set ws
          \<and> (\<forall>a b. InvalidType a b \<notin> set ws)
          \<and> (\<forall>f. MissingRequired f \<in> set ws \<longleftrightarrow>
                (\<exists>rfs. Option.bind (manifestBlockMap cbts t) requiredFields = Some rfs
                   \<and> f \<in> set rfs
                   \<and> (prop_of block f = None \<or> prop_of block f = Some JNull
                       \<or> prop_of block f = Some (JStr []))))
          \<and> (\<forall>f i. FieldIssue f i \<in> set ws \<longleftrightarrow>
                (\<exists>fts ty v is. Option.bind (manifestBlockMap cbts t) fieldTypes = Some fts
                   \<and> (f, ty) \<in> set fts \<and> non_null (prop_of block f) = Some v
                   \<and> validateFieldType f v ty t = Inr is \<and> i \<in> set is))
          \<and> (\<forall>f vs x. EnumViolation f vs x \<in> set ws \<longleftrightarrow>
                (\<exists>fes. Option.bind (manifestBlockMap cbts t) fieldEnums = Some fes
                   \<and> (f, vs) \<in> set fes \<and> non_null (prop_of block f) = Some x
                   \<and> (\<forall>s \<in> set vs. x \<noteq> JStr s)))
          \<and> (\<exists>tws. field_type_issues (manifestBlockMap cbts t) t block = Inr tws
                \<and> ws = key_issues block @ required_issues (manifestBlockMap cbts t) block
                       @ tws @ enum_issues (manifestBlockMap cbts t) block))"
proof -
  assume v: "validate_block cbts block = Inr ws"
  have early: "sorted (map issue_rank ws)
     \<and> (\<not> truthy_prop (prop_of block ''_type'') \<longrightarrow> ws = [MissingType])
     \<and> (truthy_prop (prop_of block ''_type'') \<and> \<not> type_in_manifest cbts (prop_of block ''_type'')
          \<longrightarrow> ws = key_issues block @ [InvalidType (prop_of block ''_type'') (map btype cbts)]
              \<and> length ws = (if truthy_prop (prop_of block ''_key'') then 1 else 2))
     \<and> (truthy_prop (prop_of block ''_type'') \<longrightarrow>
          (MissingKey (prop_of block ''_type'') \<in> set ws \<longleftrightarrow> \<not> truthy_prop (prop_of block ''_key'')))"
    using validate_block_sorted [OF v] validate_block_missing_type [OF v]
      validate_block_unknown_type [OF v] validate_block_key [OF v]
    by (auto simp: key_issues_def)
  have known: "MissingType \<notin> set ws
          \<and> (\<forall>a b. InvalidType a b \<notin> set ws)
          \<and> (\<forall>f. MissingRequired f \<in> set ws \<longleftrightarrow>
                (\<exists>rfs. Option.bind (manifestBlockMap cbts t) requiredFields = Some rfs
                   \<and> f \<in> set rfs
                   \<and> (prop_of block f = None \<or> prop_of block f = Some JNull
                       \<or> prop_of block f = Some (JStr []))))
          \<and> (\<forall>f i. FieldIssue f i \<in> set ws \<longleftrightarrow>
                (\<exists>fts ty v is. Option.bind (manifestBlockMap cbts t) fieldTypes = Some fts
                   \<and> (f, ty) \<in> set fts \<and> non_null (prop_of block f) = Some v
                   \<and> validateFieldType f v ty t = Inr is \<and> i \<in> set is))
          \<and> (\<forall>f vs x. EnumViolation f vs x \<in> set ws \<longleftrightarrow>
                (\<exists>fes. Option.bind (manifestBlockMap cbts t) fieldEnums = Some fes
                   \<and> (f, vs) \<in> set fes \<and> non_null (prop_of block f) = Some x
                   \<and> (\<forall>s \<in> set vs. x \<noteq> JStr s)))
          \<and> (\<exists>tws. field_type_issues (manifestBlockMap cbts t) t block = Inr tws
                \<and> ws = key_issues block @ required_issues (manifestBlockMap cbts t) block
                       @ tws @ enum_issues (manifestBlockMap cbts t) block)"
    if "prop_of block ''_type'' = Some (JStr t)" "t \<noteq> []" "type_in_manifest cbts (Some (JStr t))"
    for t
    using validate_block_known [OF v that] by (intro conjI allI)
  have k: "\<forall>t. prop_of block ''_type'' = Some (JStr t) \<and> t \<noteq> []
              \<and> type_in_manifest cbts (Some (JStr t)) \<longrightarrow>
          MissingType \<notin> set ws
          \<and> (\<forall>a b. InvalidType a b \<notin> set ws)
          \<and> (\<forall>f. MissingRequired f \<in> set ws \<longleftrightarrow>
                (\<exists>rfs. Option.bind (manifestBlockMap cbts t) requiredFields = Some rfs
                   \<and> f \<in> set rfs
                   \<and> (prop_of block f = None \<or> prop_of block f = Some JNull
                       \<or> prop_of block f = Some (JStr []))))
          \<and> (\<forall>f i. FieldIssue f i \<in> set ws \<longleftrightarrow>
                (\<exists>fts ty v is. Option.bind (manifestBlockMap cbts t) fieldTypes = Some fts
                   \<and> (f, ty) \<in> set fts \<and> non_null (prop_of block f) = Some v
                   \<and> validateFieldType f v ty t = Inr is \<and> i \<in> set is))
          \<and> (\<forall>f vs x. EnumViolation f vs x \<in> set ws \<longleftrightarrow>
                (\<exists>fes. Option.bind (manifestBlockMap cbts t) fieldEnums = Some fes
                   \<and> (f, vs) \<in> set fes \<and> non_null (prop_of block f) = Some x
                   \<and> (\<forall>s \<in> set vs. x \<noteq> JStr s)))
          \<and> (\<exists>tws. field_type_issues (manifestBlockMap cbts t) t block = Inr tws
                \<and> ws = key_issues block @ required_issues (manifestBlockMap cbts t) block
                       @ tws @ enum_issues (manifestBlockMap cbts t) block)"
  proof (intro allI impI, elim conjE)
    fix t
    assume "prop_of block ''_type'' = Some (JStr t)" "t \<noteq> []"
      "type_in_manifest cbts (Some (JStr t))"
    then show "MissingType \<notin> set ws
          \<and> (\<forall>a b. InvalidType a b \<notin> set ws)
          \<and> (\<forall>f. MissingRequired f \<in> set ws \<longleftrightarrow>
                (\<exists>rfs. Option.bind (manifestBlockMap cbts t) requiredFields = Some rfs
                   \<and> f \<in> set rfs
                   \<and> (prop_of block f = None \<or> prop_of block f = Some JNull
                       \<or> prop_of block f = Some (JStr []))))
          \<and> (\<forall>f i. FieldIssue f i \<in> set ws \<longleftrightarrow>
                (\<exists>fts ty v is. Option.bind (manifestBlockMap cbts t) fieldTypes = Some fts
                   \<and> (f, ty) \<in> set fts \<and> non_null (prop_of block f) = Some v
                   \<and> validateFieldType f v ty t = Inr is \<and> i \<in> set is))
          \<and> (\<forall>f vs x. EnumViolation f vs x \<in> set ws \<longleftrightarrow>
                (\<exists>fes. Option.bind (manifestBlockMap cbts t) fieldEnums = Some fes
                   \<and> (f, vs) \<in> set fes \<and> non_null (prop_of block f) = Some x
                   \<and> (\<forall>s \<in> set vs. x \<noteq> JStr s)))
          \<and> (\<exists>tws. field_type_issues (manifestBlockMap cbts t) t block = Inr tws
                \<and> ws = key_issues block @ required_issues (manifestBlockMap cbts t) block
                       @ tws @ enum_issues (manifestBlockMap cbts t) block)"
      by (rule known)
  qed
  from early k show ?thesis by - (elim conjE, intro conjI, assumption+)
qed

theorem validate_block_order_witness:
  "validate_block
      [\<lparr>btype = ''hero'', requiredFields = Some [''headline''],
        fieldTypes = Some [(''headline'', ''string'')], fieldEnums = None\<rparr>]
      (JObj [(''_type'', JStr ''hero''), (''headline'', JStr [])])
    = Inr [MissingKey (Some (JStr ''hero'')), MissingRequired ''headline'']
   \<and> sorted (map issue_rank [MissingKey (Some (JStr ''hero'')), MissingRequired ''headline''])
   \<and> MissingRequired ''headline''
       \<in> set [MissingKey (Some (JStr ''hero'')), MissingRequired ''headline'']"
proof -
  have v: "validate_block
      [\<lparr>btype = ''hero'', requiredFields = Some [''headline''],
        fieldTypes = Some [(''headline'', ''string'')], fieldEnums = None\<rparr>]
      (JObj [(''_type'', JStr ''hero''), (''headline'', JStr [])])
    = Inr [MissingKey (Some (JStr ''hero'')), MissingRequired ''headline'']"
    by (simp add: validate_block_def get_def type_in_manifest_def key_issues_def
          manifestBlockMap_def required_issues_def field_type_issues_def enum_issues_def
          non_null_def validateFieldType_def)
  have s: "sorted (map issue_rank [MissingKey (Some (JStr ''hero'')), MissingRequired ''headline''])"
    by (rule validate_block_order [OF v, THEN conjunct1])
  show ?thesis using v s by simp
qed

text \<open>C6 as stated fails: a block of unknown type that also lacks a key gets two warnings,
  because the key check runs between "type present" and "type known".\<close>

theorem unknown_type_counterexample:
  "validateContentBlocks [JObj [(''_type'', JStr ''bogus'')]]
     (Some \<lparr>contentBlockTypes = Some
        [\<lparr>btype = ''hero'', requiredFields = Some [''headline''], fieldTypes = None,
          fieldEnums = None\<rparr>]\<rparr>)
   = Inr (False,
       [BlockWarning 0 (MissingKey (Some (JStr ''bogus''))),
        BlockWarning 0 (InvalidType (Some (JStr ''bogus'')) [''hero''])])"
  by (simp add: validateContentBlocks_def block_types_of_def validate_block_def get_def
        type_in_manifest_def key_issues_def)

lemma enumerate_clean_iff:
  "(\<forall>x \<in> set (enumerate n bs).
      (case x of (index, block) \<Rightarrow>
         (case validate_block cbts block of
            Inl e \<Rightarrow> Inl e
          | Inr ws \<Rightarrow> Inr (map (BlockWarning index) ws))) = Inr [])
   \<longleftrightarrow> (\<forall>b \<in> set bs. validate_block cbts b = Inr [])"
  by (induction bs arbitrary: n) (auto split: sum.splits)

lemma validate_compliant_iff:
  "validateContentBlocks bs sch = Inr (True, ws) \<longleftrightarrow>
     ws = [] \<and> (\<exists>cbts. block_types_of sch = Some cbts
                 \<and> (\<forall>b \<in> set bs. validate_block cbts b = Inr []))"
proof (cases "block_types_of sch")
  case None
  then show ?thesis by (simp add: validateContentBlocks_def)
next
  case (Some cbts)
  let ?f = "\<lambda>(index, block). (case validate_block cbts block of
                      Inl e \<Rightarrow> Inl e
                    | Inr ws \<Rightarrow> Inr (map (BlockWarning index) ws))"
  have "collect ?f (enumerate 0 bs) = Inr [] \<longleftrightarrow> (\<forall>b \<in> set bs. validate_block cbts b = Inr [])"
    unfolding collect_Nil_iff by (rule enumerate_clean_iff)
  then show ?thesis
    using Some by (auto simp: validateContentBlocks_def split: sum.splits)
qed

text \<open>
  C9, as the code has it. The validator checks every block on its own and never compares
  positions: when a block list is reported compliant, every reordering of the same blocks
  is reported compliant as well, whichever of hero and pageSection comes first.
\<close>

theorem compliance_ignores_order:
  "validateContentBlocks bs sch = Inr (True, ws) \<Longrightarrow> mset bs' = mset bs \<Longrightarrow>
   validateContentBlocks bs' sch = Inr (True, [])"
  unfolding validate_compliant_iff by (metis mset_eq_setD)

theorem compliance_ignores_order_witness:
  "validateContentBlocks
     [JObj [(''_type'', JStr ''pageSection''), (''_key'', JStr ''k2'')],
      JObj [(''_type'', JStr ''hero''), (''_key'', JStr ''k1'')]]
     (Some \<lparr>contentBlockTypes = Some
        [\<lparr>btype = ''hero'', requiredFields = None, fieldTypes = None, fieldEnums = None\<rparr>,
         \<lparr>btype = ''pageSection'', requiredFields = None, fieldTypes = None,
           fieldEnums = None\<rparr>]\<rparr>)
   = Inr (True, [])"
proof -
  have v: "validateContentBlocks
     [JObj [(''_type'', JStr ''hero''), (''_key'', JStr ''k1'')],
      JObj [(''_type'', JStr ''pageSection''), (''_key'', JStr ''k2'')]]
     (Some \<lparr>contentBlockTypes = Some
        [\<lparr>btype = ''hero'', requiredFields = None, fieldTypes = None, fieldEnums = None\<rparr>,
         \<lparr>btype = ''pageSection'', requiredFields = None, fieldTypes = None,
           fieldEnums = None\<rparr>]\<rparr>)
   = Inr (True, [])"
    by (simp add: validateContentBlocks_def block_types_of_def validate_block_def get_def
          type_in_manifest_def key_issues_def manifestBlockMap_def required_issues_def
          field_type_issues_def enum_issues_def)
  have m: "mset [JObj [(''_type'', JStr ''pageSection''), (''_key'', JStr ''k2'')],
                 JObj [(''_type'', JStr ''hero''), (''_key'', JStr ''k1'')]]
         = mset [JObj [(''_type'', JStr ''hero''), (''_key'', JStr ''k1'')],
                 JObj [(''_type'', JStr ''pageSection''), (''_key'', JStr ''k2'')]]"
    by (simp add: add.commute)
  show ?thesis by (rule compliance_ignores_order [OF v m])
qed

text \<open>C9 as stated fails: a list with pageSection at index 0 and hero at index 1, both with
  their required fields, is reported compliant.\<close>

theorem page_section_before_hero_counterexample:
  "validateContentBlocks
     [JObj [(''_type'', JStr ''pageSection''), (''_key'', JStr ''k1''), (''title'', JStr ''T'')],
      JObj [(''_type'', JStr ''hero''), (''_key'', JStr ''k2''), (''headline'', JStr ''H'')]]
     (Some \<lparr>contentBlockTypes = Some
        [\<lparr>btype = ''hero'', requiredFields = Some [''headline''], fieldTypes = None,
          fieldEnums = None\<rparr>,
         \<lparr>btype = ''pageSection'', requiredFields = Some [''title''], fieldTypes = None,
           fieldEnums = None\<rparr>]\<rparr>)
   = Inr (True, [])"
  by (simp add: validateContentBlocks_def block_types_of_def validate_block_def get_def
        type_in_manifest_def key_issues_def manifestBlockMap_def required_issues_def
        field_type_issues_def enum_issues_def)

text \<open>
  C10. For a manifest that has a \<^verbatim>\<open>contentBlockTypes\<close> array, the validator applied to the
  empty block list reports compliant, with no warnings.
\<close>

theorem empty_list_compliant:
  "block_types_of sch = Some cbts \<Longrightarrow> validateContentBlocks [] sch = Inr (True, [])"
  by (simp add: validateContentBlocks_def)

theorem empty_list_compliant_witness:
  "validateContentBlocks []
     (Some \<lparr>contentBlockTypes = Some
        [\<lparr>btype = ''hero'', requiredFields = Some [''headline''], fieldTypes = None,
          fieldEnums = None\<rparr>]\<rparr>) = Inr (True, [])"
  by (rule empty_list_compliant) (simp add: block_types_of_def)

section \<open>Properties of the request check\<close>

lemma request_check_missing:
  "block_types_of (schema r) = None \<Longrightarrow>
   validateGenerationRequest r =
     (False, [''Schema manifest not loaded - ensure elportal-schema-manifest.json is available''])"
  by (simp add: validateGenerationRequest_def)

lemma request_check_present:
  assumes "block_types_of (schema r) = Some cbts"
  shows "validateGenerationRequest r =
     (let errs =
        (if filter (\<lambda>b. b \<notin> set (map btype cbts)) (optionalBlocks r) \<noteq> []
         then [''Invalid block types requested: ''
             @ join '', '' (filter (\<lambda>b. b \<notin> set (map btype cbts)) (optionalBlocks r))
             @ ''. Available types: '' @ join '', '' (map btype cbts)] else [])
        @ (if trim (topic r) = [] then [''Topic is required''] else [])
        @ (if (\<forall>k \<in> set (keywords r). trim k = [])
           then [''At least one keyword is required''] else [])
      in (errs = [], errs))"
proof -
  have t: "(topic r = [] \<or> length (trim (topic r)) = 0) \<longleftrightarrow> trim (topic r) = []"
    by (auto simp: trim_def)
  have k: "(length (keywords r) = 0 \<or> list_all (\<lambda>k. length (trim k) = 0) (keywords r))
           \<longleftrightarrow> (\<forall>k \<in> set (keywords r). trim k = [])"
    by (auto simp: list_all_iff)
  show ?thesis
    unfolding validateGenerationRequest_def assms option.case Let_def t k
    by simp
qed

text \<open>
  C8, as the code has it. With the manifest present, the error list enumerates every violated
  precondition: one message naming all selected optional blocks that the manifest lacks, one
  for a blank topic, one for a keyword list with no non-blank entry; the request is accepted
  exactly when the list is empty. With the manifest missing, the check returns at once with
  the manifest error alone: topic, keywords and optional blocks are not looked at.
\<close>

theorem request_check:
  "validateGenerationRequest r = (ok, errs) \<Longrightarrow>
     (block_types_of (schema r) = None \<longrightarrow>
        \<not> ok \<and> errs = [''Schema manifest not loaded - ensure elportal-schema-manifest.json is available''])
   \<and> (\<forall>cbts. block_types_of (schema r) = Some cbts \<longrightarrow>
        (ok \<longleftrightarrow> errs = [])
      \<and> (''Topic is required'' \<in> set errs \<longleftrightarrow> trim (topic r) = [])
      \<and> (''At least one keyword is required'' \<in> set errs
            \<longleftrightarrow> (\<forall>k \<in> set (keywords r). trim k = []))
      \<and> ((''Invalid block types requested: ''
             @ join '', '' (filter (\<lambda>b. b \<notin> set (map btype cbts)) (optionalBlocks r))
             @ ''. Available types: '' @ join '', '' (map btype cbts)) \<in> set errs
            \<longleftrightarrow> (\<exists>b \<in> set (optionalBlocks r). b \<notin> set (map btype cbts))))"
proof (intro conjI impI allI)
  assume v: "validateGenerationRequest r = (ok, errs)"
  {
    assume "block_types_of (schema r) = None"
    from request_check_missing [OF this] v
    show "\<not> ok" and "errs = [''Schema manifest not loaded - ensure elportal-schema-manifest.json is available'']"
      by simp_all
  }
  fix cbts
  assume s: "block_types_of (schema r) = Some cbts"
  let ?inv = "filter (\<lambda>b. b \<notin> set (map btype cbts)) (optionalBlocks r)"
  let ?msg = "''Invalid block types requested: '' @ join '', '' ?inv
             @ ''. Available types: '' @ join '', '' (map btype cbts)"
  have e: "errs = (if ?inv \<noteq> [] then [?msg] else [])
        @ (if trim (topic r) = [] then [''Topic is required''] else [])
        @ (if (\<forall>k \<in> set (keywords r). trim k = [])
           then [''At least one keyword is required''] else [])"
    and o: "ok = (errs = [])"
    using request_check_present [OF s] v by (simp_all add: Let_def)
  have n1: "?msg \<noteq> ''Topic is required''" by simp
  have n2: "?msg \<noteq> ''At least one keyword is required''" by simp
  have iv: "?inv \<noteq> [] \<longleftrightarrow> (\<exists>b \<in> set (optionalBlocks r). b \<notin> set (map btype cbts))"
    by (simp add: filter_empty_conv)
  show "ok \<longleftrightarrow> errs = []" by (rule o)
  show "''Topic is required'' \<in> set errs \<longleftrightarrow> trim (topic r) = []"
    unfolding e using n1 by (simp del: set_map)
  show "''At least one keyword is required'' \<in> set errs
            \<longleftrightarrow> (\<forall>k \<in> set (keywords r). trim k = [])"
    unfolding e using n2 by (simp del: set_map)
  show "?msg \<in> set errs \<longleftrightarrow> (\<exists>b \<in> set (optionalBlocks r). b \<notin> set (map btype cbts))"
    unfolding e iv [symmetric] using n1 n2 by (simp del: set_map)
qed

theorem request_check_witness:
  "validateGenerationRequest
     \<lparr>topic = '' '', keywords = [''el''], toneOfVoice = ''friendly'',
      schema = Some \<lparr>contentBlockTypes = Some
        [\<lparr>btype = ''hero'', requiredFields = None, fieldTypes = None, fieldEnums = None\<rparr>]\<rparr>,
      optionalBlocks = [''hero'', ''map'']\<rparr>
   = (False, [''Invalid block types requested: map. Available types: hero'',
              ''Topic is required''])
   \<and> ''Topic is required''
       \<in> set [''Invalid block types requested: map. Available types: hero'',
              ''Topic is required'']"
proof -
  have v: "validateGenerationRequest
     \<lparr>topic = '' '', keywords = [''el''], toneOfVoice = ''friendly'',
      schema = Some \<lparr>contentBlockTypes = Some
        [\<lparr>btype = ''hero'', requiredFields = None, fieldTypes = None, fieldEnums = None\<rparr>]\<rparr>,
      optionalBlocks = [''hero'', ''map'']\<rparr>
   = (False, [''Invalid block types requested: map. Available types: hero'',
              ''Topic is required''])"
    by (simp add: validateGenerationRequest_def block_types_of_def trim_def js_space_def)
  show ?thesis using v request_check [OF v] by simp
qed

text \<open>C8 as stated fails: with the manifest missing and the topic empty, only the manifest
  error is reported.\<close>

theorem missing_manifest_counterexample:
  "validateGenerationRequest
     \<lparr>topic = [], keywords = [''el''], toneOfVoice = ''friendly'', schema = None,
      optionalBlocks = []\<rparr>
   = (False, [''Schema manifest not loaded - ensure elportal-schema-manifest.json is available''])"
  by (simp add: validateGenerationRequest_def block_types_of_def)

section \<open>Properties of the reference sanitizer\<close>

lemma fold_delete_filter:
  "fold AList.delete ks kvs = filter (\<lambda>p. fst p \<notin> set ks) kvs"
proof (induction ks arbitrary: kvs)
  case Nil
  then show ?case by simp
next
  case (Cons k ks)
  have "AList.delete k kvs = filter (\<lambda>p. fst p \<noteq> k) kvs"
    by (simp add: AList.delete_eq case_prod_unfold eq_commute)
  then show ?case by (simp add: Cons.IH conj_commute)
qed

lemma delete_invalid_keys:
  "fold AList.delete (filter (\<lambda>key. key \<notin> set allowedKeys) (map fst kvs)) kvs
   = filter (\<lambda>p. fst p \<in> set allowedKeys) kvs"
  unfolding fold_delete_filter by (rule filter_cong) auto

lemma map_of_filter_keys:
  "P k \<Longrightarrow> map_of (filter (\<lambda>p. P (fst p)) kvs) k = map_of kvs k"
  by (induction kvs) auto

lemma no_invalid_keys:
  "fst ` set al \<subseteq> set allowedKeys \<Longrightarrow> filter (\<lambda>key. key \<notin> set allowedKeys) (map fst al) = []"
  by (auto simp: filter_empty_conv)

lemma sanitize_reference_clean:
  assumes "fst ` set al \<subseteq> set allowedKeys"
    and "truthy_prop (map_of al ''_ref'') \<Longrightarrow>
           map_of al ''_type'' = Some (JStr ''reference'') \<and> is_string_prop (map_of al ''_ref'')"
  shows "sanitize_reference al = (0, al)"
  using assms(2) unfolding sanitize_reference_def no_invalid_keys [OF assms(1)]
  by (auto simp: Let_def)

lemma sanitize_reference_result:
  assumes "sanitize_reference kvs = (n, kvs')"
  shows "fst ` set kvs' \<subseteq> set allowedKeys"
    and "truthy_prop (map_of kvs' ''_ref'') \<Longrightarrow>
           map_of kvs' ''_type'' = Some (JStr ''reference'') \<and> is_string_prop (map_of kvs' ''_ref'')"
    and "truthy_prop (map_of kvs ''_ref'') \<or> map_of kvs ''_type'' = Some (JStr ''reference'')
         \<Longrightarrow> map_of kvs' ''_type'' = Some (JStr ''reference'')"
proof -
  define k1 where "k1 = filter (\<lambda>p. fst p \<in> set allowedKeys) kvs"
  define fixType where
    "fixType \<longleftrightarrow> truthy_prop (map_of k1 ''_ref'') \<and> map_of k1 ''_type'' \<noteq> Some (JStr ''reference'')"
  define k2 where "k2 = (if fixType then AList.update ''_type'' (JStr ''reference'') k1 else k1)"
  define dropRef where
    "dropRef \<longleftrightarrow> truthy_prop (map_of k2 ''_ref'') \<and> \<not> is_string_prop (map_of k2 ''_ref'')"
  have res: "kvs' = (if dropRef then AList.delete ''_ref'' k2 else k2)"
    using assms
    unfolding sanitize_reference_def delete_invalid_keys Let_def
      k1_def [symmetric] fixType_def [symmetric] k2_def [symmetric] dropRef_def [symmetric]
    by simp
  have r1: "map_of k1 ''_ref'' = map_of kvs ''_ref''"
    unfolding k1_def by (rule map_of_filter_keys) (simp add: allowedKeys_def)
  have t1: "map_of k1 ''_type'' = map_of kvs ''_type''"
    unfolding k1_def by (rule map_of_filter_keys) (simp add: allowedKeys_def)
  have r2: "map_of k2 ''_ref'' = map_of kvs ''_ref''"
    unfolding k2_def by (simp add: AList.update_conv' r1)
  have t2: "map_of k2 ''_type'' = (if fixType then Some (JStr ''reference'') else map_of kvs ''_type'')"
    unfolding k2_def by (simp add: AList.update_conv' t1)
  have r3: "map_of kvs' ''_ref'' = (if dropRef then None else map_of kvs ''_ref'')"
    unfolding res by (simp add: AList.delete_conv' r2)
  have t3: "map_of kvs' ''_type'' = map_of k2 ''_type''"
    unfolding res by simp
  have "fst ` set k1 \<subseteq> set allowedKeys" unfolding k1_def by auto
  moreover have "''_type'' \<in> set allowedKeys" by (simp add: allowedKeys_def)
  ultimately have "fst ` set k2 \<subseteq> set allowedKeys"
    unfolding k2_def by (simp add: AList.dom_update)
  moreover have "fst ` set kvs' \<subseteq> fst ` set k2"
    unfolding res using AList.dom_delete_subset [of "''_ref''" k2] by simp
  ultimately show "fst ` set kvs' \<subseteq> set allowedKeys" by blast
  show "truthy_prop (map_of kvs' ''_ref'') \<Longrightarrow>
           map_of kvs' ''_type'' = Some (JStr ''reference'') \<and> is_string_prop (map_of kvs' ''_ref'')"
    unfolding r3 t3 t2 dropRef_def fixType_def r1 t1 r2
    by (auto split: if_splits)
  show "truthy_prop (map_of kvs ''_ref'') \<or> map_of kvs ''_type'' = Some (JStr ''reference'')
         \<Longrightarrow> map_of kvs' ''_type'' = Some (JStr ''reference'')"
    unfolding t3 t2 fixType_def r1 t1
    by (auto split: if_splits)
qed

lemma sanitize_kind:
  "(snd (sanitizeAllReferences v) = JStr s \<longleftrightarrow> v = JStr s)
   \<and> truthy (snd (sanitizeAllReferences v)) = truthy v"
  by (cases v) (auto simp: Let_def split: prod.splits)

lemma map_of_map_values:
  "map_of (map (\<lambda>kv. (fst kv, f (snd kv))) kvs) k = map_option f (map_of kvs k)"
  by (induction kvs) auto

lemma sanitize_idem_aux:
  "sanitizeAllReferences (snd (sanitizeAllReferences v)) = (0, snd (sanitizeAllReferences v))"
proof (induction v rule: sanitizeAllReferences.induct)
  case (1 xs)
  have "map (\<lambda>x. sanitizeAllReferences (snd (sanitizeAllReferences x))) xs
      = map (\<lambda>x. (0, snd (sanitizeAllReferences x))) xs"
    using 1 by simp
  then show ?case
    by (simp add: Let_def comp_def)
next
  case (2 kvs)
  show ?case
  proof (cases "truthy_prop (map_of kvs ''_ref'') \<or> map_of kvs ''_type'' = Some (JStr ''reference'')")
    case True
    obtain n kvs' where s: "sanitize_reference kvs = (n, kvs')" by (cases "sanitize_reference kvs")
    have r: "snd (sanitizeAllReferences (JObj kvs)) = JObj kvs'"
      using True s by simp
    have "sanitize_reference kvs' = (0, kvs')"
      using sanitize_reference_clean sanitize_reference_result(1,2) [OF s] by blast
    moreover have "map_of kvs' ''_type'' = Some (JStr ''reference'')"
      using sanitize_reference_result(3) [OF s True] .
    ultimately show ?thesis unfolding r by simp
  next
    case False
    let ?kvs' = "map (\<lambda>kv. (fst kv, snd (sanitizeAllReferences (snd kv)))) kvs"
    have r: "snd (sanitizeAllReferences (JObj kvs)) = JObj ?kvs'"
      using False by (simp add: Let_def comp_def)
    have nd: "\<not> (truthy_prop (map_of ?kvs' ''_ref'') \<or> map_of ?kvs' ''_type'' = Some (JStr ''reference''))"
      using False
      unfolding map_of_map_values [where f = "\<lambda>v. snd (sanitizeAllReferences v)"]
      by (cases "map_of kvs ''_ref''"; cases "map_of kvs ''_type''") (auto simp: sanitize_kind)
    have ih: "\<And>kv. kv \<in> set kvs \<Longrightarrow>
        sanitizeAllReferences (snd (sanitizeAllReferences (snd kv))) = (0, snd (sanitizeAllReferences (snd kv)))"
      using 2 False by blast
    have "map (\<lambda>kv. (fst kv, sanitizeAllReferences (snd kv))) ?kvs'
        = map (\<lambda>kv. (fst kv, (0, snd kv))) ?kvs'"
      using ih by (simp add: comp_def)
    then show ?thesis
      unfolding r using nd by (simp add: Let_def comp_def)
  qed
qed simp_all

text \<open>
  C3. Reference sanitization is idempotent: on the graph that one pass of
  \<^verbatim>\<open>sanitizeAllReferences\<close> leaves behind, a second pass changes nothing and counts zero
  sanitizations (no key removed, no \<^verbatim>\<open>_type\<close> forced, no \<^verbatim>\<open>_ref\<close> deleted).
\<close>

theorem sanitize_idempotent:
  "sanitizeAllReferences v = (n, v') \<Longrightarrow> sanitizeAllReferences v' = (0, v')"
  using sanitize_idem_aux [of v] by simp

theorem sanitize_idempotent_witness:
  "sanitizeAllReferences
     (JObj [(''link'', JObj [(''_ref'', JNum 5), (''title'', JStr ''x'')])])
   = (3, JObj [(''link'', JObj [(''_type'', JStr ''reference'')])])
   \<and> sanitizeAllReferences (JObj [(''link'', JObj [(''_type'', JStr ''reference'')])])
   = (0, JObj [(''link'', JObj [(''_type'', JStr ''reference'')])])"
proof -
  have v: "sanitizeAllReferences
     (JObj [(''link'', JObj [(''_ref'', JNum 5), (''title'', JStr ''x'')])])
   = (3, JObj [(''link'', JObj [(''_type'', JStr ''reference'')])])"
    by (simp add: sanitize_reference_def allowedKeys_def Let_def is_string_prop_def)
  show ?thesis using v sanitize_idempotent [OF v] by simp
qed

section \<open>Properties of field coercion\<close>

text \<open>
  C4. Coercion is a no-op on an already valid value: a string for the tag \<^verbatim>\<open>string\<close>, an
  array for a tag that contains \<^verbatim>\<open>array\<close>, a number for the tag \<^verbatim>\<open>number\<close>. \<^verbatim>\<open>enforceFieldType\<close>
  then reports neither a fix nor a drop and carries no replacement value, and the caller
  leaves the block as it is.
\<close>

theorem enforceFieldType_noop:
  "(expectedType = ''string'' \<and> typeof v = ''string'')
   \<or> (str_includes expectedType ''array'' \<and> isArray v)
   \<or> (expectedType = ''number'' \<and> typeof v = ''number'')
   \<Longrightarrow> (\<exists>r. enforceFieldType env fieldName v expectedType = Inr r
            \<and> \<not> fixed r \<and> \<not> dropped r \<and> new_value r = None
            \<and> apply_fix_result fieldName r b = b)"
proof -
  have a: "\<not> str_includes ''string'' ''array''" by simp
  have n: "\<not> str_includes ''number'' ''array''" by simp
  have s: "typeof v = ''string'' \<Longrightarrow> \<not> isArray v" by (cases v) auto
  assume "(expectedType = ''string'' \<and> typeof v = ''string'')
   \<or> (str_includes expectedType ''array'' \<and> isArray v)
   \<or> (expectedType = ''number'' \<and> typeof v = ''number'')"
  then show ?thesis
    using a n s by (auto simp: enforceFieldType_def Let_def apply_fix_result_def)
qed

theorem enforceFieldType_noop_witness:
  "\<exists>r. enforceFieldType sample_env ''tags'' (JArr [JStr ''el'']) ''array of strings'' = Inr r
       \<and> \<not> fixed r \<and> \<not> dropped r \<and> new_value r = None
       \<and> apply_fix_result ''tags'' r (JObj [(''tags'', JArr [JStr ''el''])])
           = JObj [(''tags'', JArr [JStr ''el''])]"
  by (rule enforceFieldType_noop) simp

section \<open>Properties of the block-specific repairers\<close>

lemma faq_items_set: "faq_items_of (set_prop ''faqItems'' (JArr xs) (JObj kvs)) = xs"
  by (simp add: faq_items_of_def AList.update_conv')

lemma placeholder_valid: "valid_faq_item (placeholder_faq_item env)"
  by (simp add: valid_faq_item_def placeholder_faq_item_def is_string_prop_def)

lemma reference_not_faq_item:
  "prop_of r ''_type'' = Some (JStr ''reference'') \<Longrightarrow> \<not> valid_faq_item r"
  by (simp add: valid_faq_item_def)

lemma fixFaqGroup_result:
  assumes "fixFaqGroup env (JObj kvs) = (block', fixes, violations)"
  shows "faq_items_of block' =
           (if filter valid_faq_item (faq_items_of (JObj kvs)) = []
            then [placeholder_faq_item env]
            else filter valid_faq_item (faq_items_of (JObj kvs)))"
    and "violations = length (filter (\<lambda>item. \<not> valid_faq_item item) (faq_items_of (JObj kvs)))"
proof -
  let ?kept = "filter valid_faq_item (faq_items_of (JObj kvs))"
  from assms have "block' = set_prop ''faqItems''
      (JArr (if length ?kept = 0 then ?kept @ [placeholder_faq_item env] else ?kept)) (JObj kvs)"
    unfolding fixFaqGroup_def Let_def by simp
  then show "faq_items_of block' = (if ?kept = [] then [placeholder_faq_item env] else ?kept)"
    by (simp add: faq_items_set del: set_prop.simps)
  from assms show "violations = length (filter (\<lambda>item. \<not> valid_faq_item item) (faq_items_of (JObj kvs)))"
    unfolding fixFaqGroup_def Let_def by simp
qed

text \<open>
  C5. After \<^verbatim>\<open>fixFaqGroup\<close> the \<^verbatim>\<open>faqItems\<close> array is never empty and holds valid inline
  \<^verbatim>\<open>faqItem\<close> records only. When no entry was a valid inline record, it holds exactly the
  one placeholder record; in particular two bare references are both dropped (two
  violations) and the array afterwards has length 1.
\<close>

theorem fixFaqGroup_nonempty:
  "fixFaqGroup env (JObj kvs) = (block', fixes, violations) \<Longrightarrow>
     faq_items_of block' \<noteq> []
   \<and> list_all valid_faq_item (faq_items_of block')
   \<and> (list_all (\<lambda>item. \<not> valid_faq_item item) (faq_items_of (JObj kvs))
        \<longrightarrow> faq_items_of block' = [placeholder_faq_item env])
   \<and> (\<forall>r1 r2. faq_items_of (JObj kvs) = [r1, r2]
          \<and> prop_of r1 ''_type'' = Some (JStr ''reference'')
          \<and> prop_of r2 ''_type'' = Some (JStr ''reference'')
        \<longrightarrow> length (faq_items_of block') = 1 \<and> violations = 2)"
proof -
  assume a: "fixFaqGroup env (JObj kvs) = (block', fixes, violations)"
  note r = fixFaqGroup_result [OF a]
  have 1: "faq_items_of block' \<noteq> []" unfolding r(1) by simp
  have 2: "list_all valid_faq_item (faq_items_of block')"
    unfolding r(1) by (simp add: placeholder_valid list_all_iff)
  have 3: "list_all (\<lambda>item. \<not> valid_faq_item item) (faq_items_of (JObj kvs))
        \<longrightarrow> faq_items_of block' = [placeholder_faq_item env]"
    unfolding r(1) by (simp add: list_all_iff filter_empty_conv)
  have 4: "length (faq_items_of block') = 1 \<and> violations = 2"
    if "faq_items_of (JObj kvs) = [r1, r2]"
      "prop_of r1 ''_type'' = Some (JStr ''reference'')"
      "prop_of r2 ''_type'' = Some (JStr ''reference'')" for r1 r2
    unfolding r using that reference_not_faq_item by simp
  from 1 2 3 4 show ?thesis by blast
qed

theorem fixFaqGroup_nonempty_witness:
  "fixFaqGroup sample_env
     (JObj [(''_type'', JStr ''faqGroup''),
            (''faqItems'', JArr [JObj [(''_type'', JStr ''reference''), (''_ref'', JStr ''a'')],
                                 JObj [(''_type'', JStr ''reference''), (''_ref'', JStr ''b'')]])])
   = (JObj [(''_type'', JStr ''faqGroup''),
            (''faqItems'', JArr [placeholder_faq_item sample_env])], 2, 2)
   \<and> faq_items_of (JObj [(''_type'', JStr ''faqGroup''),
            (''faqItems'', JArr [placeholder_faq_item sample_env])])
      = [placeholder_faq_item sample_env]"
proof -
  have v: "fixFaqGroup sample_env
     (JObj [(''_type'', JStr ''faqGroup''),
            (''faqItems'', JArr [JObj [(''_type'', JStr ''reference''), (''_ref'', JStr ''a'')],
                                 JObj [(''_type'', JStr ''reference''), (''_ref'', JStr ''b'')]])])
   = (JObj [(''_type'', JStr ''faqGroup''),
            (''faqItems'', JArr [placeholder_faq_item sample_env])], 2, 2)"
    by (simp add: fixFaqGroup_def faq_items_of_def valid_faq_item_def Let_def)
  have n: "list_all (\<lambda>item. \<not> valid_faq_item item)
     (faq_items_of (JObj [(''_type'', JStr ''faqGroup''),
            (''faqItems'', JArr [JObj [(''_type'', JStr ''reference''), (''_ref'', JStr ''a'')],
                                 JObj [(''_type'', JStr ''reference''), (''_ref'', JStr ''b'')]])]))"
    by (simp add: faq_items_of_def valid_faq_item_def)
  show ?thesis using v n fixFaqGroup_nonempty [OF v] by blast
qed

lemma some_provider_bad_False:
  "some_provider_bad i ps = Inr False \<Longrightarrow>
     list_all provider_entry_ok ps
     \<and> (i = 0 \<and> ps \<noteq> [] \<longrightarrow> prop_of (hd ps) ''_ref'' = Some (JStr (PROVIDER_WHITELIST ! 0)))"
proof (induction ps arbitrary: i)
  case Nil
  then show ?case by simp
next
  case (Cons p ps)
  from Cons.prems have e: "provider_entry_bad i p = Inr False" and r: "some_provider_bad (Suc i) ps = Inr False"
    by (auto split: sum.splits if_splits)
  from e have "provider_entry_ok p"
    and "i = 0 \<longrightarrow> prop_of p ''_ref'' = Some (JStr (PROVIDER_WHITELIST ! 0))"
    by (auto simp: provider_entry_bad_def provider_entry_ok_def get_def split: if_splits)
  with Cons.IH [OF r] show ?case by simp
qed

lemma whitelisted_refs_ok:
  "whitelisted_refs env \<noteq> []"
  "list_all provider_entry_ok (whitelisted_refs env)"
  "prop_of (hd (whitelisted_refs env)) ''_ref'' = Some (JStr (PROVIDER_WHITELIST ! 0))"
  by (simp_all add: whitelisted_refs_def PROVIDER_WHITELIST_def PROVIDER_ID_MAP_def
        provider_entry_ok_def)

lemma fixProviderList_post:
  assumes "fixProviderList env (JObj kvs) = Inr (block', fixes, violations)"
  shows "\<exists>ps. prop_of block' ''providers'' = Some (JArr ps) \<and> ps \<noteq> []
          \<and> prop_of (hd ps) ''_ref'' = Some (JStr (PROVIDER_WHITELIST ! 0))
          \<and> list_all provider_entry_ok ps"
proof (cases "providers_need_fix (JObj kvs)")
  case (Inl e)
  with assms show ?thesis by (simp add: fixProviderList_def)
next
  case (Inr needsfix)
  show ?thesis
  proof (cases needsfix)
    case True
    with Inr assms have "block' = set_prop ''providers'' (JArr (whitelisted_refs env)) (JObj kvs)"
      by (simp add: fixProviderList_def)
    then have "prop_of block' ''providers'' = Some (JArr (whitelisted_refs env))"
      by (simp add: AList.update_conv')
    then show ?thesis using whitelisted_refs_ok by blast
  next
    case False
    with Inr assms have b: "block' = JObj kvs" by (simp add: fixProviderList_def)
    from Inr False obtain ps where p: "map_of kvs ''providers'' = Some (JArr ps)" "ps \<noteq> []"
      "some_provider_bad 0 ps = Inr False"
      by (auto simp: providers_need_fix_def split: option.splits json.splits if_splits)
    from some_provider_bad_False [OF p(3)] p(1,2) b show ?thesis by simp
  qed
qed

text \<open>The \<^verbatim>\<open>null\<close> entry reaches the repair: with a manifest that declares no field types
  for \<^verbatim>\<open>providerList\<close>, nothing before \<^verbatim>\<open>fixProviderList\<close> touches \<^verbatim>\<open>providers\<close>, and
  the exception leaves \<^verbatim>\<open>applyAutoFixes\<close>.\<close>

lemma applyAutoFixes_null_provider:
  "applyAutoFixes env
     [JObj [(''_type'', JStr ''providerList''), (''_key'', JStr ''p1''),
            (''providers'', JArr [JNull])]]
     (Some \<lparr>contentBlockTypes = Some
        [\<lparr>btype = ''providerList'', requiredFields = Some [''providers''], fieldTypes = None,
          fieldEnums = None\<rparr>]\<rparr>)
   = Inl TypeError"
  by (simp add: applyAutoFixes_def fix_block_def extractSchemaFieldTypes_def
        extractReferenceOnlyFields_def block_types_of_def List.map_filter_simps
        is_string_prop_def trim_def js_space_def keys_of_def enforce_field_def
        fixProviderList_def providers_need_fix_def provider_entry_bad_def get_def)

text \<open>
  C2 asks that after \<^verbatim>\<open>fixProviderList\<close> the providers are whitelisted references with the
  preferred identifier first, for all pre-repair values. That holds whenever the repair
  returns (\<open>fixProviderList_post\<close>), but on a providers array whose first entry is \<^verbatim>\<open>null\<close>
  the \<^verbatim>\<open>some\<close> callback reads \<^verbatim>\<open>p._type\<close> of \<^verbatim>\<open>null\<close> and the repair throws
  instead of repairing.
\<close>

theorem fixProviderList_null_entry:
  "fixProviderList env (JObj [(''_type'', JStr ''providerList''), (''providers'', JArr [JNull])])
   = Inl TypeError"
  by (simp add: fixProviderList_def providers_need_fix_def provider_entry_bad_def get_def)

theorem fixProviderList_null_entry_witness:
  "fixProviderList sample_env
     (JObj [(''_type'', JStr ''providerList''), (''providers'', JArr [JNull])])
   = Inl TypeError"
  by (rule fixProviderList_null_entry)

section \<open>Properties of the boundary scan\<close>

declare matches.simps [simp del]

lemma star_step:
  assumes det: "matches x s = otl fx"
    and dec: "\<And>r. fx = Some r \<Longrightarrow> length r < length s"
  shows "matches (Star x) s = (case fx of None \<Rightarrow> [s] | Some r \<Rightarrow> matches (Star x) r @ [s])"
  using dec by (subst matches.simps(5)) (auto simp: det otl_def split: option.splits)

lemma lit_matches:
  "matches (Lit c) s = (case s of [] \<Rightarrow> [] | x # xs \<Rightarrow> if x = c then [xs] else [])"
  by (simp add: matches.simps)

lemma seq_matches: "matches (Seq a b) s = concat (map (matches b) (matches a s))"
  by (simp add: matches.simps)

lemma star_close_step:
  assumes det: "matches x s = otl fx"
    and dec: "\<And>r. fx = Some r \<Longrightarrow> length r < length s"
    and nc: "\<And>r t. fx = Some r \<Longrightarrow> s \<noteq> CHR ''}'' # t"
  shows "matches (Seq (Star x) (Lit CHR ''}'')) s =
           (case fx of
              None \<Rightarrow> (case s of [] \<Rightarrow> [] | c # t \<Rightarrow> if c = CHR ''}'' then [t] else [])
            | Some r \<Rightarrow> matches (Seq (Star x) (Lit CHR ''}'')) r)"
proof (cases fx)
  case None
  then show ?thesis using star_step [OF det dec] by (simp add: seq_matches lit_matches split: list.splits)
next
  case (Some r)
  then have "matches (Lit CHR ''}'') s = []" using nc by (auto simp: lit_matches split: list.splits)
  then show ?thesis using Some star_step [OF det dec] by (simp add: seq_matches)
qed

lemma closing_rest_shorter: "closing_rest maxd d s = Some r \<Longrightarrow> length r < length s"
  by (induction s arbitrary: d) (auto split: if_splits simp: less_Suc_eq)

lemma closing_rest_nested:
  "1 \<le> d \<Longrightarrow> closing_rest (Suc maxd) (Suc d) s =
     (case closing_rest maxd d s of None \<Rightarrow> None | Some r \<Rightarrow> closing_rest (Suc maxd) 1 r)"
proof (induction s arbitrary: d)
  case Nil
  then show ?case by simp
next
  case (Cons c cs)
  show ?case
  proof (cases "c = CHR ''}''")
    case True
    show ?thesis
    proof (cases "d = 1")
      case True
      with \<open>c = CHR ''}''\<close> show ?thesis by simp
    next
      case False
      with Cons.prems have "1 \<le> d - 1" by simp
      from Cons.IH [OF this] False Cons.prems \<open>c = CHR ''}''\<close> show ?thesis by simp
    qed
  next
    case False
    with Cons.IH [of d] Cons.IH [of "Suc d"] Cons.prems show ?thesis by simp
  qed
qed

lemma not_brace_matches:
  "matches not_brace s = otl (case s of [] \<Rightarrow> None | c # t \<Rightarrow> if c \<noteq> CHR ''{'' \<and> c \<noteq> CHR ''}'' then Some t else None)"
  by (simp add: not_brace_def otl_def matches.simps split: list.splits)

lemma group_matches:
  "matches (Seq (Lit CHR ''{'') body) s
     = (case s of [] \<Rightarrow> [] | c # t \<Rightarrow> if c = CHR ''{'' then matches body t else [])"
  by (simp add: seq_matches lit_matches split: list.splits)

lemma level1: "matches (Seq (Star not_brace) (Lit CHR ''}'')) s = otl (closing_rest 1 1 s)"
proof (induction s)
  case Nil
  show ?case
    by (subst star_close_step [OF not_brace_matches]) (simp_all add: otl_def)
next
  case (Cons c s)
  show ?case
    by (subst star_close_step [OF not_brace_matches]) (auto simp: otl_def Cons split: if_splits)
qed

lemma alt_matches:
  assumes "\<And>t. matches body t = otl (closing_rest k 1 t)"
  shows "matches (Alt not_brace (Seq (Lit CHR ''{'') body)) s
     = otl (case s of [] \<Rightarrow> None
            | c # t \<Rightarrow> if c = CHR ''{'' then closing_rest k 1 t
                       else if c = CHR ''}'' then None else Some t)"
  by (simp add: matches.simps(4) not_brace_matches group_matches assms otl_def split: list.splits)

lemma level_up:
  assumes b: "\<And>t. matches body t = otl (closing_rest k 1 t)" and k: "1 \<le> k"
  shows "matches (Seq (Star (Alt not_brace (Seq (Lit CHR ''{'') body))) (Lit CHR ''}'')) s
         = otl (closing_rest (Suc k) 1 s)"
proof (induction "length s" arbitrary: s rule: less_induct)
  case less
  show ?case
  proof (cases s)
    case Nil
    show ?thesis unfolding Nil
      by (subst star_close_step [OF alt_matches [OF b]]) (simp_all add: otl_def)
  next
    case (Cons c t)
    show ?thesis
    proof (cases "c = CHR ''{''")
      case True
      show ?thesis
      proof (cases "closing_rest k 1 t")
        case None
        show ?thesis unfolding Cons
          by (subst star_close_step [OF alt_matches [OF b]])
             (use True None k closing_rest_nested [of 1 k t] in \<open>auto simp: otl_def dest: closing_rest_shorter\<close>)
      next
        case (Some r)
        then have "length r < length s" using closing_rest_shorter Cons by fastforce
        from less [OF this] show ?thesis unfolding Cons
          by (subst star_close_step [OF alt_matches [OF b]])
             (use True Some k closing_rest_nested [of 1 k t] in \<open>auto simp: otl_def dest: closing_rest_shorter\<close>)
      qed
    next
      case False
      have "length t < length s" using Cons by simp
      from less [OF this] show ?thesis unfolding Cons
        by (subst star_close_step [OF alt_matches [OF b]])
           (use False in \<open>auto simp: otl_def dest: closing_rest_shorter split: if_splits\<close>)
    qed
  qed
qed

lemma boundary_matches:
  "matches boundary_regex s
     = (case s of [] \<Rightarrow> [] | c # t \<Rightarrow> if c = CHR ''{'' then otl (closing_rest 3 1 t) else [])"
proof -
  note l2 = level_up [OF level1, simplified]
  have l2': "\<And>t. matches (Seq (Star (Alt not_brace (Seq (Lit CHR ''{'') (Seq (Star not_brace) (Lit CHR ''}''))))) (Lit CHR ''}'')) t
        = otl (closing_rest 2 1 t)"
    using l2 by (simp add: numeral_2_eq_2)
  have l3: "\<And>t. matches (Seq (Star (Alt not_brace (Seq (Lit CHR ''{'')
        (Seq (Star (Alt not_brace (Seq (Lit CHR ''{'') (Seq (Star not_brace) (Lit CHR ''}''))))) (Lit CHR ''}''))))) (Lit CHR ''}'')) t
        = otl (closing_rest 3 1 t)"
    using level_up [OF l2'] by (simp add: numeral_3_eq_3 numeral_2_eq_2)
  show ?thesis
    unfolding boundary_regex_def group_matches l3 ..
qed


lemma closing_rest_append:
  "closing_rest maxd d u = Some r \<Longrightarrow> closing_rest maxd d (u @ post) = Some (r @ post)"
  by (induction u arbitrary: d) (auto split: if_splits)

lemma match_here_no_brace:
  "c \<noteq> CHR ''{'' \<Longrightarrow> match_here boundary_regex (c # s) = None"
  by (simp add: match_here_def boundary_matches)

lemma js_match_skip:
  "CHR ''{'' \<notin> set pre \<Longrightarrow> s \<noteq> [] \<Longrightarrow>
   js_match boundary_regex (pre @ s) = js_match boundary_regex s"
  by (induction pre) (auto simp: match_here_no_brace)

lemma js_match_group:
  assumes "brace_group 3 obj"
  shows "js_match boundary_regex (obj @ post) = Some obj"
proof -
  from assms obtain u where o: "obj = CHR ''{'' # u" and c: "closing_rest 3 1 u = Some []"
    by (auto simp: brace_group_def split: list.splits)
  have "matches boundary_regex (obj @ post) = [post]"
    unfolding o using closing_rest_append [OF c, of post] by (simp add: boundary_matches otl_def)
  then have "match_here boundary_regex (obj @ post) = Some obj"
    by (simp add: match_here_def)
  then show ?thesis unfolding o by simp
qed

text \<open>Up to three levels the boundary scan finds the object: after prose without an opening
  brace, a brace group that nests at most three deep is matched exactly and parsed.\<close>

lemma boundary_scan_depth3:
  "CHR ''{'' \<notin> set pre \<Longrightarrow> brace_group 3 obj \<Longrightarrow>
     js_match boundary_regex (pre @ obj @ post) = Some obj
     \<and> boundaryDetection env (pre @ obj @ post) = JSON_parse env obj"
proof -
  assume p: "CHR ''{'' \<notin> set pre" and g: "brace_group 3 obj"
  from g have "obj @ post \<noteq> []" by (auto simp: brace_group_def)
  from js_match_skip [OF p this] js_match_group [OF g, of post]
  have "js_match boundary_regex (pre @ obj @ post) = Some obj" by simp
  then show ?thesis by (simp add: boundaryDetection_def)
qed

lemma js_match_depth4_reply:
  \<open>js_match boundary_regex
     ''Here is the page: {"contentBlocks":[{"_type":"hero","_key":"h1","headline":"X","image":{"asset":{"_ref":"img"}}}]} Hope it helps!''
   = Some ''{"_type":"hero","_key":"h1","headline":"X","image":{"asset":{"_ref":"img"}}}''\<close>
  by (simp add: match_here_def boundary_matches otl_def)

text \<open>
  C7 asks that the boundary scan recovers a prose-wrapped JSON object however deep its
  braces nest. The pattern spells out three levels only. On a reply that wraps a document
  with one hero block (four levels: document, block, image, asset), the scan gives up on
  the document's opening brace and matches the hero block inside it; that text parses, so
  \<^verbatim>\<open>parsed\<close> is the block, the later attempt is skipped, and the block list read off
  \<^verbatim>\<open>parsed\<close> is empty where the document holds one block.
\<close>

theorem boundary_scan_inner_block:
  \<open>JSON_parse env
     ''Here is the page: {"contentBlocks":[{"_type":"hero","_key":"h1","headline":"X","image":{"asset":{"_ref":"img"}}}]} Hope it helps!''
     = None \<Longrightarrow>
   codeBlockMatch env
     ''Here is the page: {"contentBlocks":[{"_type":"hero","_key":"h1","headline":"X","image":{"asset":{"_ref":"img"}}}]} Hope it helps!''
     = None \<Longrightarrow>
   JSON_parse env
     ''{"_type":"hero","_key":"h1","headline":"X","image":{"asset":{"_ref":"img"}}}''
     = Some (JObj [(''_type'', JStr ''hero''), (''_key'', JStr ''h1''), (''headline'', JStr ''X''),
                   (''image'', JObj [(''asset'', JObj [(''_ref'', JStr ''img'')])])]) \<Longrightarrow>
   boundaryDetection env
     ''Here is the page: {"contentBlocks":[{"_type":"hero","_key":"h1","headline":"X","image":{"asset":{"_ref":"img"}}}]} Hope it helps!''
     = Some (JObj [(''_type'', JStr ''hero''), (''_key'', JStr ''h1''), (''headline'', JStr ''X''),
                   (''image'', JObj [(''asset'', JObj [(''_ref'', JStr ''img'')])])])
   \<and> extractJson env
     ''Here is the page: {"contentBlocks":[{"_type":"hero","_key":"h1","headline":"X","image":{"asset":{"_ref":"img"}}}]} Hope it helps!''
     = JObj [(''_type'', JStr ''hero''), (''_key'', JStr ''h1''), (''headline'', JStr ''X''),
             (''image'', JObj [(''asset'', JObj [(''_ref'', JStr ''img'')])])]
   \<and> blocks_of (extractJson env
     ''Here is the page: {"contentBlocks":[{"_type":"hero","_key":"h1","headline":"X","image":{"asset":{"_ref":"img"}}}]} Hope it helps!'')
     = []\<close>
  unfolding extractJson_def boundaryDetection_def js_match_depth4_reply
  by (simp add: blocks_of_def)

theorem boundary_scan_inner_block_witness:
  \<open>extractJson reply_env
     ''Here is the page: {"contentBlocks":[{"_type":"hero","_key":"h1","headline":"X","image":{"asset":{"_ref":"img"}}}]} Hope it helps!''
     = JObj [(''_type'', JStr ''hero''), (''_key'', JStr ''h1''), (''headline'', JStr ''X''),
             (''image'', JObj [(''asset'', JObj [(''_ref'', JStr ''img'')])])]
   \<and> blocks_of (extractJson reply_env
     ''Here is the page: {"contentBlocks":[{"_type":"hero","_key":"h1","headline":"X","image":{"asset":{"_ref":"img"}}}]} Hope it helps!'')
     = []
   \<and> blocks_of (the (JSON_parse reply_env
     ''{"contentBlocks":[{"_type":"hero","_key":"h1","headline":"X","image":{"asset":{"_ref":"img"}}}]}''))
     = [JObj [(''_type'', JStr ''hero''), (''_key'', JStr ''h1''), (''headline'', JStr ''X''),
              (''image'', JObj [(''asset'', JObj [(''_ref'', JStr ''img'')])])]]\<close>
proof -
  have p: \<open>JSON_parse reply_env
     ''Here is the page: {"contentBlocks":[{"_type":"hero","_key":"h1","headline":"X","image":{"asset":{"_ref":"img"}}}]} Hope it helps!''
     = None\<close>
    by (simp add: reply_env_def sample_env_def)
  have c: \<open>codeBlockMatch reply_env
     ''Here is the page: {"contentBlocks":[{"_type":"hero","_key":"h1","headline":"X","image":{"asset":{"_ref":"img"}}}]} Hope it helps!''
     = None\<close>
    by (simp add: reply_env_def sample_env_def)
  have i: \<open>JSON_parse reply_env
     ''{"_type":"hero","_key":"h1","headline":"X","image":{"asset":{"_ref":"img"}}}''
     = Some (JObj [(''_type'', JStr ''hero''), (''_key'', JStr ''h1''), (''headline'', JStr ''X''),
                   (''image'', JObj [(''asset'', JObj [(''_ref'', JStr ''img'')])])])\<close>
    by (simp add: reply_env_def sample_env_def)
  have d: \<open>blocks_of (the (JSON_parse reply_env
     ''{"contentBlocks":[{"_type":"hero","_key":"h1","headline":"X","image":{"asset":{"_ref":"img"}}}]}''))
     = [JObj [(''_type'', JStr ''hero''), (''_key'', JStr ''h1''), (''headline'', JStr ''X''),
              (''image'', JObj [(''asset'', JObj [(''_ref'', JStr ''img'')])])]]\<close>
    by (simp add: reply_env_def sample_env_def blocks_of_def)
  show ?thesis using boundary_scan_inner_block [OF p c i] d by (simp add: blocks_of_def)
qed

section \<open>Properties of generateContent\<close>

text \<open>
  C1. Whatever the raw reply (the empty string, unbalanced braces, no brace at all), a
  success of \<^verbatim>\<open>generateContent\<close> carries a block list that is not empty and that the
  validator reports compliant; every other outcome is a failure with its reason. The
  fail-safe replaces an empty block list before validation, and success is returned only
  when the validator accepts the list.
\<close>

theorem generateContent_success:
  "generateContent env request content = Success bs \<Longrightarrow>
     bs \<noteq> [] \<and> validateContentBlocks bs (schema request) = Inr (True, [])"
proof -
  assume a: "generateContent env request content = Success bs"
  obtain ok errs where v: "validateGenerationRequest request = (ok, errs)"
    by (cases "validateGenerationRequest request")
  with a have f: "fix_and_validate env (schema request) (blocks_of (extractJson env content)) = Success bs"
    by (auto simp: generateContent_def Let_def split: if_splits)
  then obtain fixed0 where
    x: "applyAutoFixes env (blocks_of (extractJson env content)) (schema request) = Inr fixed0"
    by (auto simp: fix_and_validate_def split: sum.splits)
  let ?fb = "if length fixed0 = 0 then [fallbackBlock env] else fixed0"
  from f x obtain ws where "validateContentBlocks ?fb (schema request) = Inr (True, ws)"
    and bs: "bs = ?fb"
    by (auto simp: fix_and_validate_def Let_def split: sum.splits if_splits prod.splits)
  moreover from this have "ws = []"
    by (auto simp: validateContentBlocks_def split: option.splits sum.splits)
  moreover have "?fb \<noteq> []" by simp
  ultimately show ?thesis by simp
qed

theorem generateContent_success_witness:
  "generateContent sample_env
     \<lparr>topic = ''Elpriser'', keywords = [''el''], toneOfVoice = ''friendly'',
      schema = Some \<lparr>contentBlockTypes = Some
        [\<lparr>btype = ''hero'', requiredFields = Some [''headline''], fieldTypes = None,
          fieldEnums = None\<rparr>,
         \<lparr>btype = ''pageSection'', requiredFields = Some [''title'', ''content''],
          fieldTypes = None, fieldEnums = None\<rparr>]\<rparr>,
      optionalBlocks = []\<rparr> [] = Success [fallbackBlock sample_env]
   \<and> validateContentBlocks [fallbackBlock sample_env]
       (Some \<lparr>contentBlockTypes = Some
        [\<lparr>btype = ''hero'', requiredFields = Some [''headline''], fieldTypes = None,
          fieldEnums = None\<rparr>,
         \<lparr>btype = ''pageSection'', requiredFields = Some [''title'', ''content''],
          fieldTypes = None, fieldEnums = None\<rparr>]\<rparr>) = Inr (True, [])"
proof -
  have g: "generateContent sample_env
     \<lparr>topic = ''Elpriser'', keywords = [''el''], toneOfVoice = ''friendly'',
      schema = Some \<lparr>contentBlockTypes = Some
        [\<lparr>btype = ''hero'', requiredFields = Some [''headline''], fieldTypes = None,
          fieldEnums = None\<rparr>,
         \<lparr>btype = ''pageSection'', requiredFields = Some [''title'', ''content''],
          fieldTypes = None, fieldEnums = None\<rparr>]\<rparr>,
      optionalBlocks = []\<rparr> [] = Success [fallbackBlock sample_env]"
    by (simp add: generateContent_def validateGenerationRequest_def block_types_of_def trim_def
          js_space_def createSystemPrompt_throws_def summarizeSchema_throws_def extractJson_def
          sample_env_def boundaryDetection_def boundary_regex_def match_here_def matches.simps
          blocks_of_def fix_and_validate_def applyAutoFixes_def validateContentBlocks_def
          validate_block_def get_def fallbackBlock_def type_in_manifest_def key_issues_def
          manifestBlockMap_def required_issues_def field_type_issues_def enum_issues_def)
  show ?thesis using g generateContent_success [OF g] by simp
qed

text \<open>On the four-level reply above the pipeline ends in the fallback block, not in the hero
  block of the reply.\<close>

lemma generateContent_depth4_fallback:
  \<open>generateContent reply_env
     \<lparr>topic = ''Elpriser'', keywords = [''el''], toneOfVoice = ''friendly'',
      schema = Some \<lparr>contentBlockTypes = Some
        [\<lparr>btype = ''hero'', requiredFields = Some [''headline''], fieldTypes = None,
          fieldEnums = None\<rparr>,
         \<lparr>btype = ''pageSection'', requiredFields = Some [''title'', ''content''],
          fieldTypes = None, fieldEnums = None\<rparr>]\<rparr>,
      optionalBlocks = []\<rparr>
     ''Here is the page: {"contentBlocks":[{"_type":"hero","_key":"h1","headline":"X","image":{"asset":{"_ref":"img"}}}]} Hope it helps!''
   = Success [fallbackBlock reply_env]\<close>
proof -
  have p: \<open>JSON_parse reply_env
     ''Here is the page: {"contentBlocks":[{"_type":"hero","_key":"h1","headline":"X","image":{"asset":{"_ref":"img"}}}]} Hope it helps!''
     = None\<close>
    by (simp add: reply_env_def sample_env_def)
  have c: \<open>codeBlockMatch reply_env
     ''Here is the page: {"contentBlocks":[{"_type":"hero","_key":"h1","headline":"X","image":{"asset":{"_ref":"img"}}}]} Hope it helps!''
     = None\<close>
    by (simp add: reply_env_def sample_env_def)
  have i: \<open>JSON_parse reply_env
     ''{"_type":"hero","_key":"h1","headline":"X","image":{"asset":{"_ref":"img"}}}''
     = Some (JObj [(''_type'', JStr ''hero''), (''_key'', JStr ''h1''), (''headline'', JStr ''X''),
                   (''image'', JObj [(''asset'', JObj [(''_ref'', JStr ''img'')])])])\<close>
    by (simp add: reply_env_def sample_env_def)
  have b: \<open>blocks_of (extractJson reply_env
     ''Here is the page: {"contentBlocks":[{"_type":"hero","_key":"h1","headline":"X","image":{"asset":{"_ref":"img"}}}]} Hope it helps!'')
     = []\<close>
    unfolding extractJson_def boundaryDetection_def js_match_depth4_reply
    by (simp add: p c i blocks_of_def)
  show ?thesis
    unfolding generateContent_def b
    by (simp add: validateGenerationRequest_def block_types_of_def trim_def
          js_space_def createSystemPrompt_throws_def summarizeSchema_throws_def
          fix_and_validate_def applyAutoFixes_def validateContentBlocks_def
          validate_block_def get_def fallbackBlock_def type_in_manifest_def key_issues_def
          manifestBlockMap_def required_issues_def field_type_issues_def enum_issues_def)
qed

end
